theory Spec2Isabelle
  imports Main "HOL-Library.Word"
begin

unbundle bit_operations_syntax

section \<open>Control loop of the soldering-iron station (main.c)\<close>

text \<open>
  The target is an STM8 compiled with SDCC: \<open>int\<close> is 16 bits wide, \<open>uint8_t\<close>,
  \<open>uint16_t\<close> and \<open>uint32_t\<close> are words of 8, 16 and 32 bits, and unsigned arithmetic
  wraps around.  An operation between a \<open>uint16_t\<close> and an \<open>int\<close> is carried out on
  16-bit unsigned values; a conversion to \<open>int16_t\<close> keeps the bits.
\<close>

type_synonym u8 = "8 word"
type_synonym u16 = "16 word"
type_synonym u32 = "32 word"

subsection \<open>Constants\<close>

text \<open>The anonymous enum of the sleep states, stored in \<open>uint8_t\<close> variables.\<close>

definition NOSLEEP :: u8 where "NOSLEEP = 0"
definition SLEEP :: u8 where "SLEEP = 1"
definition DEEPSLEEP :: u8 where "DEEPSLEEP = 2"

definition SHORT_PRESS :: u32 where "SHORT_PRESS = 700"
definition LONG_PRESS :: u32 where "LONG_PRESS = 1800"
definition FAST_INCREMENT :: nat where "FAST_INCREMENT = 40"
definition MIN_HEAT :: u16 where "MIN_HEAT = 50"
definition MAX_HEAT :: u16 where "MAX_HEAT = 450"
definition EEPROM_SAVE_TIMEOUT :: u32 where "EEPROM_SAVE_TIMEOUT = 2000"
definition HEATPOINT_DISPLAY_DELAY :: u32 where "HEATPOINT_DISPLAY_DELAY = 5000"
definition SLEEP_TEMP :: u16 where "SLEEP_TEMP = 100"
definition MAX_ADC_RT :: u16 where "MAX_ADC_RT = 130"
definition MIN_ADC_RT :: u16 where "MIN_ADC_RT = 40"

text \<open>
  Modelled from the spec: the pin levels \<open>LOW\<close> and \<open>HIGH\<close> of stm8s_pins.h, which is
  not part of the sources.  The buttons are active-low (pressed = low level), and
  \<open>checkButton\<close> answers \<open>HIGH\<close> for "active" and \<open>LOW\<close> for "not active", which
  \<open>mainLoop\<close> tests with \<open>!action\<close>; so \<open>LOW\<close> is zero and \<open>HIGH\<close> is not.
\<close>

definition LOW :: u8 where "LOW = 0"
definition HIGH :: u8 where "HIGH = 1"

subsection \<open>Data\<close>

record EEPROM_DATA =
  heatPoint :: u16
  sleepTimeout :: u32
  deepSleepTimeout :: u32

datatype pin = PB5 | PB6 | PB7

datatype adc_channel = ADC1_CSR_CH0 | ADC1_CSR_CH1

text \<open>
  The symbol masks of s7c.h are not part of the sources; they are a parameter of the
  functions that draw on the display.
\<close>

record s7c_symbols =
  SYM_CELS :: u8
  SYM_TEMP :: u8
  SYM_MOON :: u8
  SYM_SUN :: u8
  SYM_SAVE :: u8

text \<open>
  What one iteration reads from the hardware: the millisecond counter, the two ADC
  channels and the three pins.
\<close>

record inputs =
  millis :: u32
  adcCH0 :: u16
  adcCH1 :: u16
  pinPB5 :: u8
  pinPB6 :: u8
  pinPB7 :: u8

definition currentMillis :: "inputs \<Rightarrow> u32" where
  "currentMillis i = millis i"

fun ADC_read :: "inputs \<Rightarrow> adc_channel \<Rightarrow> u16" where
  "ADC_read i ADC1_CSR_CH0 = adcCH0 i"
| "ADC_read i ADC1_CSR_CH1 = adcCH1 i"

fun getPin :: "inputs \<Rightarrow> pin \<Rightarrow> u8" where
  "getPin i PB5 = pinPB5 i"
| "getPin i PB6 = pinPB6 i"
| "getPin i PB7 = pinPB7 i"

text \<open>
  The calls into the peripheral drivers, in the order they are made.  An argument that is
  the same constant at every call is left out: the PWM channel \<open>PWM_CH1\<close>, and the
  address \<open>EEPROM_START_ADDR\<close> and size of the stored record.
\<close>

datatype event =
    PWM_duty u16
  | S7C_setChars string
  | S7C_setDigit nat u16
  | S7C_setSymbol nat u8
  | S7C_refreshDisplay u32
  | Beep
  | BeepAlarm
  | Eeprom_write EEPROM_DATA
  | Delay_ms nat

text \<open>
  The file-level statics, the function-level statics of \<open>mainLoop\<close>, \<open>checkSleep\<close> and
  \<open>checkButton\<close>, and the log of driver calls.
\<close>

record state =
  sleepTimer :: u32
  buttonTimer :: u32
  longPressTimer :: u32
  haveToSaveData :: u32
  heatPointDisplayTime :: u32
  eepromData :: EEPROM_DATA
  oldSleep :: u8
  oldADCVal :: u16
  oldADCUI :: u16
  localCnt :: u16
  oldDisplayValue :: u16
  oldSensorState :: u8
  skipCounter :: u8
  out :: "event list"

definition emit :: "event \<Rightarrow> state \<Rightarrow> state" where
  "emit e s = s\<lparr>out := out s @ [e]\<rparr>"

definition setHeatPoint :: "u16 \<Rightarrow> state \<Rightarrow> state" where
  "setHeatPoint v s = s\<lparr>eepromData := (eepromData s)\<lparr>heatPoint := v\<rparr>\<rparr>"

subsection \<open>Start-up\<close>

text \<open>
  The statics start at zero.  The start-up routine (\<open>setup()\<close> in main.c; the name
  is a keyword here) reads the clock once and the stored record once;
  the initialisation calls of the clock, display and PWM drivers leave no trace here.
\<close>

definition power_on :: state where
  "power_on = \<lparr>sleepTimer = 0, buttonTimer = 0, longPressTimer = 0, haveToSaveData = 0,
     heatPointDisplayTime = 0,
     eepromData = \<lparr>heatPoint = 0, sleepTimeout = 0, deepSleepTimeout = 0\<rparr>,
     oldSleep = 0, oldADCVal = 0, oldADCUI = 0, localCnt = 0, oldDisplayValue = 0,
     oldSensorState = 0, skipCounter = 0, out = []\<rparr>"

definition setup_main :: "u32 \<Rightarrow> EEPROM_DATA \<Rightarrow> state" where
  "setup_main now stored =
     (let s1 = emit BeepAlarm (emit (PWM_duty 50) power_on);
          s2 = s1\<lparr>sleepTimer := now\<rparr>;
          s3 = s2\<lparr>heatPointDisplayTime := sleepTimer s2 + HEATPOINT_DISPLAY_DELAY\<rparr>;
          s4 = s3\<lparr>eepromData := stored\<rparr>
      in if heatPoint (eepromData s4) = 0 then
           (let s5 = s4\<lparr>eepromData :=
                  \<lparr>heatPoint = 270, sleepTimeout = 180000, deepSleepTimeout = 600000\<rparr>\<rparr>
            in emit (Eeprom_write (eepromData s5)) s5)
         else s4)"

subsection \<open>checkSleep, checkHeatPointValidity, checkButton, checkPendingDataSave\<close>

definition checkSleep :: "inputs \<Rightarrow> u32 \<Rightarrow> state \<Rightarrow> u8 \<times> state" where
  "checkSleep i nowTime s =
     (let sensorState = getPin i PB5 in
      if sensorState \<noteq> oldSensorState s then
        (NOSLEEP, s\<lparr>sleepTimer := nowTime, oldSensorState := sensorState\<rparr>)
      else if nowTime - sleepTimer s > deepSleepTimeout (eepromData s) then (DEEPSLEEP, s)
      else if nowTime - sleepTimer s > sleepTimeout (eepromData s) then (SLEEP, s)
      else (NOSLEEP, s))"

definition checkHeatPointValidity :: "state \<Rightarrow> state" where
  "checkHeatPointValidity s =
     (let s1 = (if heatPoint (eepromData s) > MAX_HEAT then setHeatPoint MAX_HEAT s else s)
      in if heatPoint (eepromData s1) < MIN_HEAT then setHeatPoint MIN_HEAT s1 else s1)"

text \<open>
  \<open>checkButton\<close> is only ever called with \<open>value = &_eepromData.heatPoint\<close>, so the
  pointer is not a parameter here.  \<open>*value += increment\<close> promotes the \<open>int8_t\<close>
  increment to \<open>int\<close> (sign extension) and adds it modulo \<open>2^16\<close>.  \<open>skipCounter++\<close>
  is evaluated whenever the long-press branch is taken, and wraps at 256.
\<close>

definition checkButton :: "inputs \<Rightarrow> pin \<Rightarrow> 8 word \<Rightarrow> u32 \<Rightarrow> state \<Rightarrow> u8 \<times> state" where
  "checkButton i button increment nowTime s =
     (if getPin i button = LOW then
        (let s1 = (if buttonTimer s = 0 then s\<lparr>buttonTimer := nowTime\<rparr> else s);
             s2 = (if longPressTimer s1 = 0 then s1\<lparr>longPressTimer := buttonTimer s1\<rparr> else s1);
             s3 = (if nowTime - longPressTimer s2 > LONG_PRESS then
                     (let c = skipCounter s2;
                          s2a = s2\<lparr>skipCounter := c + 1\<rparr>
                      in if unat c mod FAST_INCREMENT = 0 then
                           (setHeatPoint (heatPoint (eepromData s2a) + scast increment) s2a)
                             \<lparr>haveToSaveData := nowTime\<rparr>
                         else s2a)
                   else if nowTime - buttonTimer s2 > SHORT_PRESS then
                     emit Beep
                       ((setHeatPoint (heatPoint (eepromData s2) + scast increment) s2)
                          \<lparr>haveToSaveData := nowTime, buttonTimer := 0\<rparr>)
                   else s2)
         in (HIGH, s3\<lparr>heatPointDisplayTime := nowTime + HEATPOINT_DISPLAY_DELAY\<rparr>))
      else (LOW, s))"

definition checkPendingDataSave :: "s7c_symbols \<Rightarrow> u32 \<Rightarrow> state \<Rightarrow> state" where
  "checkPendingDataSave sy nowTime s =
     (if haveToSaveData s \<noteq> 0 \<and> nowTime - haveToSaveData s > EEPROM_SAVE_TIMEOUT then
        (let s1 = emit (S7C_setSymbol 3 (SYM_SAVE sy)) s;
             s2 = emit (Eeprom_write (eepromData s1)) s1
         in s2\<lparr>haveToSaveData := 0\<rparr>)
      else s)"

subsection \<open>mainLoop\<close>

text \<open>
  The body of \<open>mainLoop\<close> is cut at its own comments: the fault test and the fault
  exit, the degrees value, the heater duty, the two buttons, and the display.
\<close>

text \<open>\<open>error = (adcVal < 10) ? 1 : (adcVal > 1000) ? 2 : 0\<close>\<close>

definition faultCode :: "u16 \<Rightarrow> u8" where
  "faultCode adcVal = (if adcVal < 10 then 1 else if adcVal > 1000 then 2 else 0)"

text \<open>The body of \<open>if (error) { ... return; }\<close>.\<close>

definition faultStop :: "u32 \<Rightarrow> u8 \<Rightarrow> state \<Rightarrow> state" where
  "faultStop nowTime error s =
     emit Beep
       (emit (S7C_refreshDisplay nowTime)
         (emit (S7C_setDigit 2 (ucast error))
           (emit (S7C_setChars ''ER'')
             (emit (PWM_duty 100) s))))"

text \<open>
  \<open>displayVal = (MAX_HEAT - MIN_HEAT) * (adcVal - MIN_ADC_RT) / (MAX_ADC_RT - MIN_ADC_RT)\<close>:
  \<open>adcVal\<close> is unsigned, so the difference, the product and the quotient are unsigned
  16-bit, the first two modulo \<open>2^16\<close>.
\<close>

definition degrees :: "u16 \<Rightarrow> u16" where
  "degrees adcVal = (MAX_HEAT - MIN_HEAT) * (adcVal - MIN_ADC_RT) div (MAX_ADC_RT - MIN_ADC_RT)"

text \<open>
  \<open>int16_t diff = (sleep == SLEEP) ? SLEEP_TEMP - displayVal : heatPoint - displayVal\<close>:
  the unsigned difference, read as a signed value afterwards.
\<close>

definition tempDiff :: "u8 \<Rightarrow> u16 \<Rightarrow> u16 \<Rightarrow> u16" where
  "tempDiff sleep hp displayVal =
     (if sleep = SLEEP then SLEEP_TEMP - displayVal else hp - displayVal)"

text \<open>
  \<open>int16_t pwmVal = (sleep == DEEPSLEEP || diff < 0) ? 100 : (diff > 50) ? 50 : 90 - diff\<close>,
  the comparisons being signed.
\<close>

definition heaterDuty :: "u8 \<Rightarrow> u16 \<Rightarrow> u16" where
  "heaterDuty sleep diff =
     (if sleep = DEEPSLEEP \<or> sint diff < 0 then 100
      else if sint diff > 50 then 50
      else 90 - diff)"

text \<open>The two \<open>checkButton\<close> calls, the reset of the timers and the clamp.\<close>

definition editSetpoint :: "inputs \<Rightarrow> u32 \<Rightarrow> state \<Rightarrow> u8 \<times> state" where
  "editSetpoint i nowTime s =
     (let (a1, s1) = checkButton i PB7 1 nowTime s;
          (a2, s2) = checkButton i PB6 (- 1) nowTime s1;
          action = a1 OR a2;
          s3 = (if action = 0 then s2\<lparr>buttonTimer := 0, longPressTimer := 0\<rparr> else s2)
      in (action, checkHeatPointValidity s3))"

text \<open>
  From \<open>tempInRange\<close> to \<open>S7C_setSymbol(3, displaySymbol)\<close>: which value and which
  symbols are shown.
\<close>

definition composeDisplay ::
    "s7c_symbols \<Rightarrow> u32 \<Rightarrow> u8 \<Rightarrow> u8 \<Rightarrow> u16 \<Rightarrow> u16 \<Rightarrow> state \<Rightarrow> state" where
  "composeDisplay sy nowTime sleep action pwmVal displayVal0 s =
     (let hp = heatPoint (eepromData s);
          tempInRange = (displayVal0 \<ge> hp - 10 \<and> displayVal0 \<le> hp + 10);
          showPoint = (action \<noteq> 0 \<or> nowTime < heatPointDisplayTime s \<or> tempInRange);
          displayVal = (if showPoint then hp else displayVal0);
          sym1 = (if showPoint then SYM_CELS sy OR SYM_TEMP sy else SYM_CELS sy);
          sym2 = sym1 OR (if sleep \<noteq> 0 \<and> (localCnt s div 500) mod 2 \<noteq> 0
                          then SYM_MOON sy else 0);
          sym3 = sym2 OR (if sint pwmVal < 100 \<and> (localCnt s div 50) mod 2 \<noteq> 0
                          then SYM_SUN sy else 0);
          s1 = (if sleep \<noteq> DEEPSLEEP then
                  emit (S7C_setDigit 2 (displayVal mod 10))
                    (emit (S7C_setDigit 1 ((displayVal mod 100) div 10))
                      (emit (S7C_setDigit 0 (displayVal div 100)) s))
                else
                  emit (S7C_setSymbol 2 0) (emit (S7C_setSymbol 1 0) (emit (S7C_setSymbol 0 0) s)))
      in emit (S7C_setSymbol 3 sym3) s1)"

text \<open>\<open>if (oldSleep != sleep) { beepAlarm(); oldSleep = sleep; }\<close>\<close>

definition sleepChange :: "u8 \<Rightarrow> state \<Rightarrow> state" where
  "sleepChange sleep s =
     (if oldSleep s \<noteq> sleep then (emit BeepAlarm s)\<lparr>oldSleep := sleep\<rparr> else s)"

text \<open>Everything after the fault exit.\<close>

definition regulate :: "s7c_symbols \<Rightarrow> inputs \<Rightarrow> u32 \<Rightarrow> u16 \<Rightarrow> state \<Rightarrow> state" where
  "regulate sy i nowTime adcVal s =
     (let (sleep, s1) = checkSleep i nowTime s;
          s2 = sleepChange sleep s1;
          displayVal = degrees adcVal;
          diff = tempDiff sleep (heatPoint (eepromData s2)) displayVal;
          pwmVal = heaterDuty sleep diff;
          s3 = emit (PWM_duty pwmVal) s2;
          (action, s4) = editSetpoint i nowTime s3;
          s5 = composeDisplay sy nowTime sleep action pwmVal displayVal s4;
          s6 = checkPendingDataSave sy nowTime s5;
          s7 = emit (S7C_refreshDisplay nowTime) s6;
          s8 = s7\<lparr>localCnt := localCnt s7 + 1\<rparr>
      in emit (Delay_ms 1) s8)"

text \<open>The filtered temperature reading of an iteration: \<open>((oldADCVal * 3) + adcVal) >> 2\<close>.\<close>

definition filteredTemp :: "inputs \<Rightarrow> state \<Rightarrow> u16" where
  "filteredTemp i s = drop_bit 2 (oldADCVal s * 3 + ADC_read i ADC1_CSR_CH0)"

definition mainLoop :: "s7c_symbols \<Rightarrow> inputs \<Rightarrow> state \<Rightarrow> state" where
  "mainLoop sy i s =
     (let nowTime = currentMillis i;
          adcUIn = drop_bit 2 (oldADCUI s * 3 + ADC_read i ADC1_CSR_CH1);
          s1 = s\<lparr>oldADCUI := adcUIn\<rparr>;
          adcVal = filteredTemp i s1;
          s2 = s1\<lparr>oldADCVal := adcVal\<rparr>;
          error = faultCode adcVal
      in if error \<noteq> 0 then faultStop nowTime error s2
         else regulate sy i nowTime adcVal s2)"

text \<open>
  \<open>main\<close> calls \<open>mainLoop\<close> for ever; \<open>run\<close> is any finite number of its iterations,
  one per element of the list of readings.
\<close>

fun run :: "s7c_symbols \<Rightarrow> inputs list \<Rightarrow> state \<Rightarrow> state" where
  "run sy [] s = s"
| "run sy (i # is) s = run sy is (mainLoop sy i s)"

subsection \<open>What is observed of the driver calls\<close>

text \<open>
  The duty values handed to the PWM driver, the records handed to the EEPROM driver and
  the number of short beeps, each read off the log of driver calls.
\<close>

definition pwmOf :: "event \<Rightarrow> u16 list" where
  "pwmOf e = (case e of PWM_duty v \<Rightarrow> [v] | _ \<Rightarrow> [])"
definition pwmWrites :: "event list \<Rightarrow> u16 list" where
  "pwmWrites es = concat (map pwmOf es)"
definition writeOf :: "event \<Rightarrow> EEPROM_DATA list" where
  "writeOf e = (case e of Eeprom_write d \<Rightarrow> [d] | _ \<Rightarrow> [])"
definition eepromWrites :: "event list \<Rightarrow> EEPROM_DATA list" where
  "eepromWrites es = concat (map writeOf es)"
definition beeps :: "event list \<Rightarrow> nat" where
  "beeps es = length (filter (\<lambda>e. e = Beep) es)"

text \<open>Readings and a symbol table for the examples.\<close>

definition example_symbols :: s7c_symbols where
  "example_symbols = \<lparr>SYM_CELS = 1, SYM_TEMP = 2, SYM_MOON = 4, SYM_SUN = 8, SYM_SAVE = 16\<rparr>"

definition reading :: "u32 \<Rightarrow> u16 \<Rightarrow> u8 \<Rightarrow> u8 \<Rightarrow> u8 \<Rightarrow> inputs" where
  "reading t temp pb5 pb6 pb7 =
     \<lparr>millis = t, adcCH0 = temp, adcCH1 = 0, pinPB5 = pb5, pinPB6 = pb6, pinPB7 = pb7\<rparr>"

definition factory_record :: EEPROM_DATA where
  "factory_record = \<lparr>heatPoint = 270, sleepTimeout = 180000, deepSleepTimeout = 600000\<rparr>"

text \<open>
  A state in which the long-press threshold has passed: the press was first seen at
  1000 ms and the press-start timer was last re-armed at 2404 ms.
\<close>

definition both_held :: state where
  "both_held = (setup_main 0 factory_record)\<lparr>buttonTimer := 2404, longPressTimer := 1000\<rparr>"

subsection \<open>Edits, runs and what they are measured by\<close>

text \<open>
  When \<open>checkButton\<close> finds its button pressed, it executes \<open>*value += increment\<close> (and
  \<open>_haveToSaveData = nowTime\<close>) exactly under this condition on the timers and the repeat
  counter: in the long-press branch every \<open>FAST_INCREMENT\<close>-th call, otherwise when the
  short-press threshold has passed.
\<close>

definition pressFires :: "u32 \<Rightarrow> state \<Rightarrow> bool" where
  "pressFires nowTime s =
     (let bt = (if buttonTimer s = 0 then nowTime else buttonTimer s);
          lp = (if longPressTimer s = 0 then bt else longPressTimer s)
      in if nowTime - lp > LONG_PRESS then unat (skipCounter s) mod FAST_INCREMENT = 0
         else nowTime - bt > SHORT_PRESS)"

text \<open>
  An edit is applied in an iteration when the iteration is not cut short by a fault and
  one of the two \<open>checkButton\<close> calls changes the setpoint.
\<close>

definition editApplied :: "inputs \<Rightarrow> state \<Rightarrow> bool" where
  "editApplied i s =
     (faultCode (filteredTemp i s) = 0 \<and>
      (getPin i PB7 = LOW \<and> pressFires (millis i) s \<or>
       getPin i PB6 = LOW \<and> pressFires (millis i) (snd (checkButton i PB7 1 (millis i) s))))"

text \<open>The value \<open>checkHeatPointValidity\<close> leaves in \<open>heatPoint\<close>.\<close>

definition clampHeat :: "u16 \<Rightarrow> u16" where
  "clampHeat h = (if h > 450 then 450 else if h < 50 then 50 else h)"

text \<open>
  Only the button \<open>btn\<close> (\<open>PB7\<close>, "increase", or \<open>PB6\<close>, "decrease") reads as
  pressed; and the setpoint one step of that button gives, after the clamp, from a
  setpoint in range.
\<close>

definition onlyHeld :: "pin \<Rightarrow> inputs \<Rightarrow> bool" where
  "onlyHeld btn i =
     (getPin i btn = LOW \<and>
      (if btn = PB7 then getPin i PB6 \<noteq> LOW else getPin i PB7 \<noteq> LOW))"

definition stepHeat :: "pin \<Rightarrow> u16 \<Rightarrow> u16" where
  "stepHeat btn h =
     (if btn = PB7 then (if h = 450 then 450 else h + 1) else (if h = 50 then 50 else h - 1))"

text \<open>Two states that the button and save logic cannot tell apart.\<close>

definition sameButtons :: "state \<Rightarrow> state \<Rightarrow> bool" where
  "sameButtons b s =
     (buttonTimer b = buttonTimer s \<and> longPressTimer b = longPressTimer s \<and>
      skipCounter b = skipCounter s \<and> eepromData b = eepromData s \<and>
      haveToSaveData b = haveToSaveData s \<and> beeps (out b) = beeps (out s) \<and>
      eepromWrites (out b) = eepromWrites (out s))"

text \<open>A run in which no iteration takes the fault exit.\<close>

fun faultFree :: "s7c_symbols \<Rightarrow> inputs list \<Rightarrow> state \<Rightarrow> bool" where
  "faultFree sy [] s = True"
| "faultFree sy (i # is) s =
     (faultCode (filteredTemp i s) = 0 \<and> faultFree sy is (mainLoop sy i s))"

text \<open>
  The clock reading of the latest iteration of a run that applied an edit (\<open>e\<close> if the
  run applies none, \<open>e\<close> being the latest edit before the run, if any); and a run in
  which every iteration comes at most \<open>EEPROM_SAVE_TIMEOUT\<close> after the latest edit
  applied before it, so that the edits follow each other within that time.
\<close>

fun lastEdit :: "s7c_symbols \<Rightarrow> inputs list \<Rightarrow> state \<Rightarrow> u32 option \<Rightarrow> u32 option" where
  "lastEdit sy [] s e = e"
| "lastEdit sy (i # is) s e =
     lastEdit sy is (mainLoop sy i s) (if editApplied i s then Some (millis i) else e)"

fun editsClose :: "s7c_symbols \<Rightarrow> inputs list \<Rightarrow> state \<Rightarrow> u32 option \<Rightarrow> bool" where
  "editsClose sy [] s e = True"
| "editsClose sy (i # is) s e =
     ((case e of None \<Rightarrow> True | Some t \<Rightarrow> millis i - t \<le> EEPROM_SAVE_TIMEOUT) \<and>
      editsClose sy is (mainLoop sy i s) (if editApplied i s then Some (millis i) else e))"

text \<open>A run in which no edit is applied at a clock reading other than 0.\<close>

fun noArmingEdit :: "s7c_symbols \<Rightarrow> inputs list \<Rightarrow> state \<Rightarrow> bool" where
  "noArmingEdit sy [] s = True"
| "noArmingEdit sy (i # is) s =
     (\<not> (editApplied i s \<and> millis i \<noteq> 0) \<and> noArmingEdit sy is (mainLoop sy i s))"

text \<open>
  Readings with the "increase" button held, with the "decrease" button held, or with
  both buttons released, taken at the millisecond \<open>k\<close>; and two states in which the press was first seen at 1000 ms, or
  800 ms before the millisecond counter wrapped around.
\<close>

definition held_plus :: "nat \<Rightarrow> inputs" where
  "held_plus k = reading (of_nat k) 400 0 1 0"

definition held_minus :: "nat \<Rightarrow> inputs" where
  "held_minus k = reading (of_nat k) 400 0 0 1"

definition released_at :: "nat \<Rightarrow> inputs" where
  "released_at k = reading (of_nat k) 400 0 1 1"

definition pressed_since_1000 :: state where
  "pressed_since_1000 =
     (setup_main 0 factory_record)\<lparr>buttonTimer := 1000, longPressTimer := 1000\<rparr>"

definition pressed_before_wrap :: state where
  "pressed_before_wrap =
     (setup_main 0 factory_record)\<lparr>buttonTimer := 4294966496, longPressTimer := 4294966496\<rparr>"

section \<open>Properties\<close>

subsection \<open>What each part of an iteration leaves alone\<close>

lemma obs_append [simp]:
  "pwmWrites (xs @ ys) = pwmWrites xs @ pwmWrites ys"
  "eepromWrites (xs @ ys) = eepromWrites xs @ eepromWrites ys"
  "beeps (xs @ ys) = beeps xs + beeps ys"
  by (simp_all add: pwmWrites_def eepromWrites_def beeps_def)

lemma obs_single [simp]:
  "pwmWrites [] = []" "eepromWrites [] = []" "beeps [] = 0"
  "pwmWrites (e # es) = pwmOf e @ pwmWrites es"
  "eepromWrites (e # es) = writeOf e @ eepromWrites es"
  "beeps (e # es) = (if e = Beep then 1 else 0) + beeps es"
  by (simp_all add: pwmWrites_def eepromWrites_def beeps_def)

lemma obs_event [simp]:
  "pwmOf (PWM_duty v) = [v]" "pwmOf (S7C_setChars cs) = []" "pwmOf (S7C_setDigit k d) = []"
  "pwmOf (S7C_setSymbol k m) = []" "pwmOf (S7C_refreshDisplay t) = []" "pwmOf Beep = []"
  "pwmOf BeepAlarm = []" "pwmOf (Eeprom_write r) = []" "pwmOf (Delay_ms k) = []"
  "writeOf (PWM_duty v) = []" "writeOf (S7C_setChars cs) = []" "writeOf (S7C_setDigit k d) = []"
  "writeOf (S7C_setSymbol k m) = []" "writeOf (S7C_refreshDisplay t) = []" "writeOf Beep = []"
  "writeOf BeepAlarm = []" "writeOf (Eeprom_write r) = [r]" "writeOf (Delay_ms k) = []"
  by (simp_all add: pwmOf_def writeOf_def)

lemma checkSleep_frame [simp]:
  "buttonTimer (snd (checkSleep i n s)) = buttonTimer s"
  "longPressTimer (snd (checkSleep i n s)) = longPressTimer s"
  "haveToSaveData (snd (checkSleep i n s)) = haveToSaveData s"
  "heatPointDisplayTime (snd (checkSleep i n s)) = heatPointDisplayTime s"
  "eepromData (snd (checkSleep i n s)) = eepromData s"
  "oldSleep (snd (checkSleep i n s)) = oldSleep s"
  "oldADCVal (snd (checkSleep i n s)) = oldADCVal s"
  "oldADCUI (snd (checkSleep i n s)) = oldADCUI s"
  "localCnt (snd (checkSleep i n s)) = localCnt s"
  "skipCounter (snd (checkSleep i n s)) = skipCounter s"
  "out (snd (checkSleep i n s)) = out s"
  by (simp_all add: checkSleep_def Let_def)

lemma composeDisplay_frame [simp]:
  "sleepTimer (composeDisplay sy n sl a p d s) = sleepTimer s"
  "oldSensorState (composeDisplay sy n sl a p d s) = oldSensorState s"
  "buttonTimer (composeDisplay sy n sl a p d s) = buttonTimer s"
  "longPressTimer (composeDisplay sy n sl a p d s) = longPressTimer s"
  "haveToSaveData (composeDisplay sy n sl a p d s) = haveToSaveData s"
  "heatPointDisplayTime (composeDisplay sy n sl a p d s) = heatPointDisplayTime s"
  "eepromData (composeDisplay sy n sl a p d s) = eepromData s"
  "oldSleep (composeDisplay sy n sl a p d s) = oldSleep s"
  "oldADCVal (composeDisplay sy n sl a p d s) = oldADCVal s"
  "oldADCUI (composeDisplay sy n sl a p d s) = oldADCUI s"
  "localCnt (composeDisplay sy n sl a p d s) = localCnt s"
  "skipCounter (composeDisplay sy n sl a p d s) = skipCounter s"
  by (simp_all add: composeDisplay_def Let_def emit_def)

lemma composeDisplay_out [simp]:
  "pwmWrites (out (composeDisplay sy n sl a p d s)) = pwmWrites (out s)"
  "eepromWrites (out (composeDisplay sy n sl a p d s)) = eepromWrites (out s)"
  "beeps (out (composeDisplay sy n sl a p d s)) = beeps (out s)"
  by (simp_all add: composeDisplay_def Let_def emit_def)

lemma checkPendingDataSave_frame [simp]:
  "sleepTimer (checkPendingDataSave sy n s) = sleepTimer s"
  "oldSensorState (checkPendingDataSave sy n s) = oldSensorState s"
  "buttonTimer (checkPendingDataSave sy n s) = buttonTimer s"
  "longPressTimer (checkPendingDataSave sy n s) = longPressTimer s"
  "heatPointDisplayTime (checkPendingDataSave sy n s) = heatPointDisplayTime s"
  "eepromData (checkPendingDataSave sy n s) = eepromData s"
  "oldSleep (checkPendingDataSave sy n s) = oldSleep s"
  "oldADCVal (checkPendingDataSave sy n s) = oldADCVal s"
  "oldADCUI (checkPendingDataSave sy n s) = oldADCUI s"
  "localCnt (checkPendingDataSave sy n s) = localCnt s"
  "skipCounter (checkPendingDataSave sy n s) = skipCounter s"
  "pwmWrites (out (checkPendingDataSave sy n s)) = pwmWrites (out s)"
  "beeps (out (checkPendingDataSave sy n s)) = beeps (out s)"
  by (simp_all add: checkPendingDataSave_def Let_def emit_def)

lemma checkHeatPointValidity_frame [simp]:
  "sleepTimer (checkHeatPointValidity s) = sleepTimer s"
  "oldSensorState (checkHeatPointValidity s) = oldSensorState s"
  "buttonTimer (checkHeatPointValidity s) = buttonTimer s"
  "longPressTimer (checkHeatPointValidity s) = longPressTimer s"
  "haveToSaveData (checkHeatPointValidity s) = haveToSaveData s"
  "heatPointDisplayTime (checkHeatPointValidity s) = heatPointDisplayTime s"
  "oldSleep (checkHeatPointValidity s) = oldSleep s"
  "oldADCVal (checkHeatPointValidity s) = oldADCVal s"
  "oldADCUI (checkHeatPointValidity s) = oldADCUI s"
  "localCnt (checkHeatPointValidity s) = localCnt s"
  "skipCounter (checkHeatPointValidity s) = skipCounter s"
  "out (checkHeatPointValidity s) = out s"
  "sleepTimeout (eepromData (checkHeatPointValidity s)) = sleepTimeout (eepromData s)"
  "deepSleepTimeout (eepromData (checkHeatPointValidity s)) = deepSleepTimeout (eepromData s)"
  by (simp_all add: checkHeatPointValidity_def Let_def setHeatPoint_def)

lemma checkHeatPointValidity_range:
  "50 \<le> heatPoint (eepromData (checkHeatPointValidity s)) \<and>
   heatPoint (eepromData (checkHeatPointValidity s)) \<le> 450"
  by (simp add: checkHeatPointValidity_def Let_def setHeatPoint_def MIN_HEAT_def MAX_HEAT_def not_less)

lemma checkButton_frame [simp]:
  "sleepTimer (snd (checkButton i b inc n s)) = sleepTimer s"
  "oldSensorState (snd (checkButton i b inc n s)) = oldSensorState s"
  "oldSleep (snd (checkButton i b inc n s)) = oldSleep s"
  "oldADCVal (snd (checkButton i b inc n s)) = oldADCVal s"
  "oldADCUI (snd (checkButton i b inc n s)) = oldADCUI s"
  "localCnt (snd (checkButton i b inc n s)) = localCnt s"
  "sleepTimeout (eepromData (snd (checkButton i b inc n s))) = sleepTimeout (eepromData s)"
  "deepSleepTimeout (eepromData (snd (checkButton i b inc n s))) = deepSleepTimeout (eepromData s)"
  "pwmWrites (out (snd (checkButton i b inc n s))) = pwmWrites (out s)"
  "eepromWrites (out (snd (checkButton i b inc n s))) = eepromWrites (out s)"
  by (simp_all add: checkButton_def Let_def setHeatPoint_def emit_def)

lemma editSetpoint_frame [simp]:
  "sleepTimer (snd (editSetpoint i n s)) = sleepTimer s"
  "oldSensorState (snd (editSetpoint i n s)) = oldSensorState s"
  "oldSleep (snd (editSetpoint i n s)) = oldSleep s"
  "oldADCVal (snd (editSetpoint i n s)) = oldADCVal s"
  "oldADCUI (snd (editSetpoint i n s)) = oldADCUI s"
  "localCnt (snd (editSetpoint i n s)) = localCnt s"
  "sleepTimeout (eepromData (snd (editSetpoint i n s))) = sleepTimeout (eepromData s)"
  "deepSleepTimeout (eepromData (snd (editSetpoint i n s))) = deepSleepTimeout (eepromData s)"
  "pwmWrites (out (snd (editSetpoint i n s))) = pwmWrites (out s)"
  "eepromWrites (out (snd (editSetpoint i n s))) = eepromWrites (out s)"
  by (simp_all add: editSetpoint_def Let_def split_def)

lemma editSetpoint_range:
  "50 \<le> heatPoint (eepromData (snd (editSetpoint i n s))) \<and>
   heatPoint (eepromData (snd (editSetpoint i n s))) \<le> 450"
  by (simp add: editSetpoint_def Let_def split_def checkHeatPointValidity_range)

lemma sleepChange_frame [simp]:
  "sleepTimer (sleepChange sl s) = sleepTimer s"
  "oldSensorState (sleepChange sl s) = oldSensorState s"
  "buttonTimer (sleepChange sl s) = buttonTimer s"
  "longPressTimer (sleepChange sl s) = longPressTimer s"
  "haveToSaveData (sleepChange sl s) = haveToSaveData s"
  "heatPointDisplayTime (sleepChange sl s) = heatPointDisplayTime s"
  "eepromData (sleepChange sl s) = eepromData s"
  "oldADCVal (sleepChange sl s) = oldADCVal s"
  "oldADCUI (sleepChange sl s) = oldADCUI s"
  "localCnt (sleepChange sl s) = localCnt s"
  "skipCounter (sleepChange sl s) = skipCounter s"
  "pwmWrites (out (sleepChange sl s)) = pwmWrites (out s)"
  "eepromWrites (out (sleepChange sl s)) = eepromWrites (out s)"
  "beeps (out (sleepChange sl s)) = beeps (out s)"
  by (simp_all add: sleepChange_def emit_def)

lemma regulate_eepromData:
  "eepromData (regulate sy i n adc s) =
   eepromData (snd (editSetpoint i n
     (emit (PWM_duty (heaterDuty (fst (checkSleep i n s))
        (tempDiff (fst (checkSleep i n s)) (heatPoint (eepromData s)) (degrees adc))))
       (sleepChange (fst (checkSleep i n s)) (snd (checkSleep i n s))))))"
  by (simp add: regulate_def Let_def split_def emit_def)

lemma regulate_range:
  "50 \<le> heatPoint (eepromData (regulate sy i n adc s)) \<and>
   heatPoint (eepromData (regulate sy i n adc s)) \<le> 450"
  unfolding regulate_eepromData by (rule editSetpoint_range)

lemma regulate_pwm:
  "pwmWrites (out (regulate sy i n adc s)) = pwmWrites (out s) @
     [heaterDuty (fst (checkSleep i n s))
        (tempDiff (fst (checkSleep i n s)) (heatPoint (eepromData s)) (degrees adc))]"
  by (simp add: regulate_def Let_def split_def emit_def)

lemma sint_90_minus:
  fixes d :: u16
  assumes "0 \<le> sint d" "sint d \<le> 50"
  shows "sint (90 - d) = 90 - sint d"
proof -
  have "sint (90 - d) = signed_take_bit 15 (sint (90::u16) - sint d)"
    by (simp add: sint_word_ariths)
  also have "\<dots> = signed_take_bit 15 (90 - sint d)" by simp
  also have "\<dots> = 90 - sint d"
    using assms by (intro signed_take_bit_int_eq_self) simp_all
  finally show ?thesis .
qed

lemma heaterDuty_range: "40 \<le> sint (heaterDuty sl d) \<and> sint (heaterDuty sl d) \<le> 100"
proof (cases "sl = DEEPSLEEP \<or> sint d < 0")
  case True
  then show ?thesis by (auto simp add: heaterDuty_def)
next
  case False
  show ?thesis
  proof (cases "sint d > 50")
    case True
    with False show ?thesis by (simp add: heaterDuty_def)
  next
    case gt: False
    with False have "sint (90 - d) = 90 - sint d" by (intro sint_90_minus) simp_all
    with False gt show ?thesis by (simp add: heaterDuty_def)
  qed
qed

lemma mainLoop_nofault:
  "faultCode (filteredTemp i s) = 0 \<Longrightarrow>
   mainLoop sy i s = regulate sy i (millis i) (filteredTemp i s)
     (s\<lparr>oldADCUI := drop_bit 2 (oldADCUI s * 3 + ADC_read i ADC1_CSR_CH1),
        oldADCVal := filteredTemp i s\<rparr>)"
  by (simp add: mainLoop_def Let_def filteredTemp_def currentMillis_def)

lemma mainLoop_fault:
  "faultCode (filteredTemp i s) \<noteq> 0 \<Longrightarrow>
   mainLoop sy i s = faultStop (millis i) (faultCode (filteredTemp i s))
     (s\<lparr>oldADCUI := drop_bit 2 (oldADCUI s * 3 + ADC_read i ADC1_CSR_CH1),
        oldADCVal := filteredTemp i s\<rparr>)"
  by (simp add: mainLoop_def Let_def filteredTemp_def currentMillis_def)


subsection \<open>The example readings\<close>

lemma setup_main_factory:
  "setup_main t factory_record =
     \<lparr>sleepTimer = t, buttonTimer = 0, longPressTimer = 0, haveToSaveData = 0,
      heatPointDisplayTime = t + 5000, eepromData = factory_record,
      oldSleep = 0, oldADCVal = 0, oldADCUI = 0, localCnt = 0, oldDisplayValue = 0,
      oldSensorState = 0, skipCounter = 0, out = [PWM_duty 50, BeepAlarm]\<rparr>"
  by (simp add: setup_main_def power_on_def emit_def factory_record_def
      HEATPOINT_DISPLAY_DELAY_def Let_def)

lemma factory_record_simps [simp]:
  "heatPoint factory_record = 270"
  "sleepTimeout factory_record = 180000"
  "deepSleepTimeout factory_record = 600000"
  by (simp_all add: factory_record_def)

lemma filteredTemp_reading [simp]:
  "filteredTemp (reading t a p5 p6 p7) s = drop_bit 2 (oldADCVal s * 3 + a)"
  by (simp add: filteredTemp_def reading_def)

lemma reading_simps [simp]:
  "millis (reading t a p5 p6 p7) = t"
  "adcCH0 (reading t a p5 p6 p7) = a"
  "pinPB5 (reading t a p5 p6 p7) = p5"
  "pinPB6 (reading t a p5 p6 p7) = p6"
  "pinPB7 (reading t a p5 p6 p7) = p7"
  by (simp_all add: reading_def)

subsection \<open>Fault detection\<close>

text \<open>
  C1. For every filtered temperature reading \<open>r\<close>: below 10 the fault code is 1 (sensor
  shorted), above 1000 it is 2 (sensor open or broken), and from 10 to 1000 inclusive no
  fault is detected (code 0).  \<open>mainLoop\<close> applies \<open>faultCode\<close> to the filtered reading
  of the iteration.
\<close>

theorem faultCode_policy:
  "(r < 10 \<longrightarrow> faultCode r = 1) \<and> (r > 1000 \<longrightarrow> faultCode r = 2) \<and>
   (10 \<le> r \<and> r \<le> 1000 \<longrightarrow> faultCode r = 0)"
  by (auto simp add: faultCode_def word_less_nat_alt word_le_nat_alt)

theorem faultCode_policy_witness:
  "((5::u16) < 10 \<and> faultCode 5 = 1) \<and> ((1001::u16) > 1000 \<and> faultCode 1001 = 2) \<and>
   ((10::u16) \<le> 500 \<and> (500::u16) \<le> 1000 \<and> faultCode 500 = 0)"
  using faultCode_policy [of 5] faultCode_policy [of 1001] faultCode_policy [of 500]
  by simp

text \<open>
  C2. In an iteration whose filtered reading is faulty, the driver calls are exactly:
  duty 100, the characters "ER", the fault code at digit 2, a display refresh and a short
  beep.  The iteration ends there: the stored record (with the setpoint), the sleep
  timer and sleep memories, the button timers and the repeat counter, the pending-save
  timestamp, the display deadline and the iteration counter are as before.
\<close>

theorem fault_iteration:
  assumes "faultCode (filteredTemp i s) \<noteq> 0"
  shows "out (mainLoop sy i s) =
           out s @ [PWM_duty 100, S7C_setChars ''ER'',
                    S7C_setDigit 2 (ucast (faultCode (filteredTemp i s))),
                    S7C_refreshDisplay (millis i), Beep] \<and>
         eepromData (mainLoop sy i s) = eepromData s \<and>
         sleepTimer (mainLoop sy i s) = sleepTimer s \<and>
         oldSensorState (mainLoop sy i s) = oldSensorState s \<and>
         oldSleep (mainLoop sy i s) = oldSleep s \<and>
         buttonTimer (mainLoop sy i s) = buttonTimer s \<and>
         longPressTimer (mainLoop sy i s) = longPressTimer s \<and>
         skipCounter (mainLoop sy i s) = skipCounter s \<and>
         haveToSaveData (mainLoop sy i s) = haveToSaveData s \<and>
         heatPointDisplayTime (mainLoop sy i s) = heatPointDisplayTime s \<and>
         localCnt (mainLoop sy i s) = localCnt s"
  by (simp add: mainLoop_fault [OF assms] faultStop_def emit_def)

theorem fault_iteration_witness:
  "faultCode (filteredTemp (reading 1000 5 0 1 1) (setup_main 0 factory_record)) \<noteq> 0 \<and>
   out (mainLoop example_symbols (reading 1000 5 0 1 1) (setup_main 0 factory_record)) =
     [PWM_duty 50, BeepAlarm, PWM_duty 100, S7C_setChars ''ER'', S7C_setDigit 2 1,
      S7C_refreshDisplay 1000, Beep] \<and>
   heatPoint (eepromData (mainLoop example_symbols (reading 1000 5 0 1 1)
     (setup_main 0 factory_record))) = 270 \<and>
   haveToSaveData (mainLoop example_symbols (reading 1000 5 0 1 1)
     (setup_main 0 factory_record)) = 0"
proof -
  have h: "faultCode (filteredTemp (reading 1000 5 0 1 1) (setup_main 0 factory_record)) \<noteq> 0"
    by (simp add: setup_main_factory faultCode_def)
  show ?thesis
    using h fault_iteration [OF h, of example_symbols]
    by (simp add: setup_main_factory faultCode_def)
qed

subsection \<open>Heater duty\<close>

text \<open>
  C3. In every iteration without a fault exactly one duty value is handed to the PWM
  driver, and, read as a signed 16-bit value, it lies between 40 and 100.  This holds for
  every filtered reading, sleep state and setpoint, all arithmetic being 16-bit.
\<close>

theorem pwm_duty_range:
  assumes "faultCode (filteredTemp i s) = 0"
  shows "\<exists>v. pwmWrites (out (mainLoop sy i s)) = pwmWrites (out s) @ [v] \<and>
             40 \<le> sint v \<and> sint v \<le> 100"
  by (simp add: mainLoop_nofault [OF assms] regulate_pwm heaterDuty_range)

theorem pwm_duty_range_witness:
  "faultCode (filteredTemp (reading 1000 400 0 1 1) (setup_main 0 factory_record)) = 0 \<and>
   (\<exists>v. pwmWrites (out (mainLoop example_symbols (reading 1000 400 0 1 1)
            (setup_main 0 factory_record))) =
          pwmWrites (out (setup_main 0 factory_record)) @ [v] \<and> 40 \<le> sint v \<and> sint v \<le> 100)"
proof -
  have h: "faultCode (filteredTemp (reading 1000 400 0 1 1) (setup_main 0 factory_record)) = 0"
    by (simp add: setup_main_factory faultCode_def)
  show ?thesis
    using h pwm_duty_range [OF h, of example_symbols] by simp
qed

subsection \<open>Setpoint\<close>

text \<open>
  C5. After every iteration without a fault the setpoint lies between 50 and 450,
  whatever the state before and whatever the buttons did.
\<close>

theorem heatPoint_clamped:
  assumes "faultCode (filteredTemp i s) = 0"
  shows "50 \<le> heatPoint (eepromData (mainLoop sy i s)) \<and>
         heatPoint (eepromData (mainLoop sy i s)) \<le> 450"
  by (simp add: mainLoop_nofault [OF assms] regulate_range)

theorem heatPoint_clamped_witness:
  "faultCode (filteredTemp (reading 1000 400 0 1 1) (setup_main 0 factory_record)) = 0 \<and>
   50 \<le> heatPoint (eepromData (mainLoop example_symbols (reading 1000 400 0 1 1)
            (setup_main 0 factory_record))) \<and>
   heatPoint (eepromData (mainLoop example_symbols (reading 1000 400 0 1 1)
            (setup_main 0 factory_record))) \<le> 450"
proof -
  have h: "faultCode (filteredTemp (reading 1000 400 0 1 1) (setup_main 0 factory_record)) = 0"
    by (simp add: setup_main_factory faultCode_def)
  show ?thesis
    using h heatPoint_clamped [OF h, of example_symbols] by simp
qed

subsection \<open>Duty against temperature\<close>

lemma degrees_97_98: "degrees 97 = 253" "degrees 98 = 257"
  by (simp_all add: degrees_def MAX_HEAT_def MIN_HEAT_def MAX_ADC_RT_def MIN_ADC_RT_def)

lemma duty_97_98:
  "tempDiff NOSLEEP 300 253 = 47" "tempDiff NOSLEEP 300 257 = 43"
  "heaterDuty NOSLEEP 47 = 43" "heaterDuty NOSLEEP 43 = 47"
  by (simp_all add: heaterDuty_def tempDiff_def NOSLEEP_def SLEEP_def DEEPSLEEP_def)

lemma sint_small:
  fixes d :: u16
  assumes "d \<le> 50"
  shows "sint d = uint d"
proof -
  from assms have "uint d \<le> 50" by (simp add: word_le_def)
  moreover have "- 32768 \<le> uint d"
    by (rule order_trans [OF _ uint_ge_0]) simp
  ultimately have "signed_take_bit 15 (uint d) = uint d"
    by (intro signed_take_bit_int_eq_self) simp_all
  then show ?thesis by (simp add: sint_uint)
qed

lemma heaterDuty_ramp:
  fixes d :: u16
  assumes "sl \<noteq> DEEPSLEEP" "d \<le> 50"
  shows "sint (heaterDuty sl d) = 90 - uint d"
proof -
  from assms(2) have u: "uint d \<le> 50" by (simp add: word_le_def)
  have s: "sint d = uint d" using assms(2) by (rule sint_small)
  have "sint (90 - d) = 90 - sint d" using s u by (intro sint_90_minus) simp_all
  with assms(1) s u show ?thesis by (simp add: heaterDuty_def)
qed

text \<open>
  C4 (as amended). For a fixed sleep state and a fixed setpoint, with the target being the
  sleep temperature when sleeping and the setpoint otherwise.  In deep sleep the duty is
  100 at every measured value \<open>T\<close> (so there it never increases).  In the other sleep
  states: while \<open>T\<close> is at most the target and within 50 of it, the duty is
  \<open>90 - (target - T)\<close>, so it does not decrease as \<open>T\<close> rises toward the target (40 at a
  difference of 50, 90 at the target); further than 50 below the target it is 50.  In
  every sleep state the duty is 100 once the difference is negative.
\<close>

theorem duty_ramp:
  fixes T1 T2 tg :: u16
  assumes "tg = (if sl = SLEEP then SLEEP_TEMP else hp)"
  shows "(sl = DEEPSLEEP \<longrightarrow> (\<forall>T. heaterDuty sl (tempDiff sl hp T) = 100)) \<and>
         (sl \<noteq> DEEPSLEEP \<and> T1 \<le> T2 \<and> T2 \<le> tg \<and> tg - T1 \<le> 50 \<longrightarrow>
            sint (heaterDuty sl (tempDiff sl hp T1)) = 90 - (uint tg - uint T1) \<and>
            sint (heaterDuty sl (tempDiff sl hp T2)) = 90 - (uint tg - uint T2) \<and>
            sint (heaterDuty sl (tempDiff sl hp T1)) \<le> sint (heaterDuty sl (tempDiff sl hp T2))) \<and>
         (sl \<noteq> DEEPSLEEP \<longrightarrow>
            (\<forall>T. 50 < sint (tg - T) \<longrightarrow> heaterDuty sl (tempDiff sl hp T) = 50)) \<and>
         (\<forall>T. sint (tg - T) < 0 \<longrightarrow> heaterDuty sl (tempDiff sl hp T) = 100)"
proof -
  have d: "tempDiff sl hp T = tg - T" for T
    using assms by (simp add: tempDiff_def)
  have deep: "sl = DEEPSLEEP \<longrightarrow> (\<forall>T. heaterDuty sl (tempDiff sl hp T) = 100)"
    by (simp add: heaterDuty_def)
  have far: "sl \<noteq> DEEPSLEEP \<longrightarrow>
      (\<forall>T. 50 < sint (tg - T) \<longrightarrow> heaterDuty sl (tempDiff sl hp T) = 50)"
    by (simp add: d heaterDuty_def)
  have over: "\<forall>T. sint (tg - T) < 0 \<longrightarrow> heaterDuty sl (tempDiff sl hp T) = 100"
    by (simp add: d heaterDuty_def)
  have ramp: "sint (heaterDuty sl (tempDiff sl hp T1)) = 90 - (uint tg - uint T1) \<and>
         sint (heaterDuty sl (tempDiff sl hp T2)) = 90 - (uint tg - uint T2) \<and>
         sint (heaterDuty sl (tempDiff sl hp T1)) \<le> sint (heaterDuty sl (tempDiff sl hp T2))"
    if h: "sl \<noteq> DEEPSLEEP \<and> T1 \<le> T2 \<and> T2 \<le> tg \<and> tg - T1 \<le> 50"
  proof -
    from h have nd: "sl \<noteq> DEEPSLEEP" and w: "tg - T1 \<le> 50"
      and le1: "uint T1 \<le> uint T2" and le2: "uint T2 \<le> uint tg"
      by (simp_all add: word_le_def)
    have u1: "uint (tg - T1) = uint tg - uint T1"
      using le1 le2 uint_sub_lem [of T1 tg] by simp
    have u2: "uint (tg - T2) = uint tg - uint T2"
      using le2 uint_sub_lem [of T2 tg] by simp
    from w have "uint (tg - T1) \<le> 50" by (simp add: word_le_def)
    with u1 u2 le1 have "uint (tg - T2) \<le> uint (50 :: u16)" by simp
    then have b2: "tg - T2 \<le> 50" by (simp only: word_le_def)
    show ?thesis
      using heaterDuty_ramp [OF nd w] heaterDuty_ramp [OF nd b2] u1 u2 le1 le2
      by (simp add: d)
  qed
  from deep ramp far over show ?thesis by blast
qed

theorem duty_ramp_witness:
  "heaterDuty DEEPSLEEP (tempDiff DEEPSLEEP 300 253) = 100 \<and>
   heaterDuty DEEPSLEEP (tempDiff DEEPSLEEP 300 257) = 100 \<and>
   NOSLEEP \<noteq> DEEPSLEEP \<and> (253 :: u16) \<le> 257 \<and> (257 :: u16) \<le> 300 \<and> (300 :: u16) - 253 \<le> 50 \<and>
   sint (heaterDuty NOSLEEP (tempDiff NOSLEEP 300 253)) = 43 \<and>
   sint (heaterDuty NOSLEEP (tempDiff NOSLEEP 300 257)) = 47 \<and>
   50 < sint ((300 :: u16) - 100) \<and> heaterDuty NOSLEEP (tempDiff NOSLEEP 300 100) = 50 \<and>
   sint ((300 :: u16) - 301) < 0 \<and> heaterDuty NOSLEEP (tempDiff NOSLEEP 300 301) = 100"
proof -
  have h1: "NOSLEEP \<noteq> DEEPSLEEP" by (simp add: NOSLEEP_def DEEPSLEEP_def)
  have h2: "(300 :: u16) = (if NOSLEEP = SLEEP then SLEEP_TEMP else 300)"
    by (simp add: NOSLEEP_def SLEEP_def)
  have h2d: "(300 :: u16) = (if DEEPSLEEP = SLEEP then SLEEP_TEMP else 300)"
    by (simp add: DEEPSLEEP_def SLEEP_def)
  have h3: "(253 :: u16) \<le> 257" "(257 :: u16) \<le> 300" "(300 :: u16) - 253 \<le> 50"
    by simp_all
  have h4: "50 < sint ((300 :: u16) - 100)" "sint ((300 :: u16) - 301) < 0"
    by simp_all
  show ?thesis
    using h1 h3 h4 duty_ramp [OF h2, of 253 257] duty_ramp [OF h2d, of 253 257]
    by simp
qed

text \<open>
  C4 as stated fails: with the setpoint at 300 and no sleep, the filtered readings 97 and
  98 give the measured values 253 and 257, both below the target, and the duty rises from
  43 to 47.
\<close>

theorem duty_not_monotone_counterexample:
  "degrees 97 < degrees 98 \<and>
   0 \<le> sint (tempDiff NOSLEEP 300 (degrees 98)) \<and>
   \<not> sint (heaterDuty NOSLEEP (tempDiff NOSLEEP 300 (degrees 98)))
       \<le> sint (heaterDuty NOSLEEP (tempDiff NOSLEEP 300 (degrees 97)))"
  by (simp add: degrees_97_98 duty_97_98)


subsection \<open>Sleep state\<close>

lemma checkSleep_toggle:
  "getPin i PB5 \<noteq> oldSensorState s \<Longrightarrow>
   checkSleep i t s = (NOSLEEP, s\<lparr>sleepTimer := t, oldSensorState := getPin i PB5\<rparr>)"
  by (simp add: checkSleep_def Let_def)

lemma checkSleep_steady:
  "getPin i PB5 = oldSensorState s \<Longrightarrow>
   checkSleep i t s =
     (if t - sleepTimer s > deepSleepTimeout (eepromData s) then DEEPSLEEP
      else if t - sleepTimer s > sleepTimeout (eepromData s) then SLEEP else NOSLEEP, s)"
  by (simp add: checkSleep_def Let_def)

text \<open>
  C6 (as amended). After the presence pin has toggled at \<open>t0\<close>, and while it keeps that
  level, with \<open>sleepTimeout \<le> deepSleepTimeout\<close> and the elapsed time \<open>t - t0\<close> taken modulo
  \<open>2^32\<close>: the reported state is NoSleep while \<open>t - t0 \<le> sleepTimeout\<close>, Sleep while
  \<open>sleepTimeout < t - t0 \<le> deepSleepTimeout\<close>, and DeepSleep once
  \<open>t - t0 > deepSleepTimeout\<close>.  The toggle itself reports NoSleep, and a call without a
  toggle leaves the state as it is.
\<close>

theorem sleep_after_toggle:
  assumes "getPin i0 PB5 \<noteq> oldSensorState s"
      and "getPin i PB5 = getPin i0 PB5"
      and "sleepTimeout (eepromData s) \<le> deepSleepTimeout (eepromData s)"
  shows "fst (checkSleep i0 t0 s) = NOSLEEP \<and>
         snd (checkSleep i t (snd (checkSleep i0 t0 s))) = snd (checkSleep i0 t0 s) \<and>
         (t - t0 \<le> sleepTimeout (eepromData s) \<longrightarrow>
            fst (checkSleep i t (snd (checkSleep i0 t0 s))) = NOSLEEP) \<and>
         (sleepTimeout (eepromData s) < t - t0 \<and> t - t0 \<le> deepSleepTimeout (eepromData s) \<longrightarrow>
            fst (checkSleep i t (snd (checkSleep i0 t0 s))) = SLEEP) \<and>
         (deepSleepTimeout (eepromData s) < t - t0 \<longrightarrow>
            fst (checkSleep i t (snd (checkSleep i0 t0 s))) = DEEPSLEEP)"
  using assms
  by (auto simp add: checkSleep_toggle checkSleep_steady)

theorem sleep_after_toggle_witness:
  "getPin (reading 1000 400 1 1 1) PB5 \<noteq> oldSensorState (setup_main 0 factory_record) \<and>
   sleepTimeout (eepromData (setup_main 0 factory_record))
     \<le> deepSleepTimeout (eepromData (setup_main 0 factory_record)) \<and>
   fst (checkSleep (reading 181000 400 1 1 1) 181000
          (snd (checkSleep (reading 1000 400 1 1 1) 1000 (setup_main 0 factory_record))))
     = NOSLEEP \<and>
   fst (checkSleep (reading 181001 400 1 1 1) 181001
          (snd (checkSleep (reading 1000 400 1 1 1) 1000 (setup_main 0 factory_record))))
     = SLEEP \<and>
   fst (checkSleep (reading 601000 400 1 1 1) 601000
          (snd (checkSleep (reading 1000 400 1 1 1) 1000 (setup_main 0 factory_record))))
     = SLEEP \<and>
   fst (checkSleep (reading 601001 400 1 1 1) 601001
          (snd (checkSleep (reading 1000 400 1 1 1) 1000 (setup_main 0 factory_record))))
     = DEEPSLEEP"
proof -
  have h1: "getPin (reading 1000 400 1 1 1) PB5 \<noteq> oldSensorState (setup_main 0 factory_record)"
    by (simp add: setup_main_factory)
  have h3: "sleepTimeout (eepromData (setup_main 0 factory_record))
     \<le> deepSleepTimeout (eepromData (setup_main 0 factory_record))"
    by (simp add: setup_main_factory)
  have h2: "getPin (reading t 400 1 1 1) PB5 = getPin (reading 1000 400 1 1 1) PB5" for t
    by simp
  note th = sleep_after_toggle [OF h1 h2 h3, where ?t0.0 = 1000]
  show ?thesis
    using h1 h3
      th [where t = 181000 and t1 = 181000]
      th [where t = 181001 and t1 = 181001]
      th [where t = 601000 and t1 = 601000]
      th [where t = 601001 and t1 = 601001]
    by (simp add: setup_main_factory)
qed

text \<open>
  C6 as stated fails at the boundary: with the toggle at 1000 ms and a sleep timeout of
  180000 ms, the state reported at 181000 ms is not Sleep.
\<close>

theorem sleep_boundary_counterexample:
  "getPin (reading 1000 400 1 1 1) PB5 \<noteq> oldSensorState (setup_main 0 factory_record) \<and>
   getPin (reading 181000 400 1 1 1) PB5 = getPin (reading 1000 400 1 1 1) PB5 \<and>
   (181000 :: u32) = 1000 + sleepTimeout (eepromData (setup_main 0 factory_record)) \<and>
   fst (checkSleep (reading 181000 400 1 1 1) 181000
          (snd (checkSleep (reading 1000 400 1 1 1) 1000 (setup_main 0 factory_record))))
     \<noteq> SLEEP"
  by (simp add: setup_main_factory checkSleep_toggle checkSleep_steady
      NOSLEEP_def SLEEP_def)


subsection \<open>The repeat counter\<close>

lemma checkButton_longPress:
  assumes "getPin i b = LOW" "longPressTimer s \<noteq> 0" "nowTime - longPressTimer s > LONG_PRESS"
  shows "skipCounter (snd (checkButton i b inc nowTime s)) = skipCounter s + 1"
    and "longPressTimer (snd (checkButton i b inc nowTime s)) = longPressTimer s"
  using assms by (simp_all add: checkButton_def Let_def setHeatPoint_def)

text \<open>
  C9 (as amended). There is one repeat-skip counter (and one press-start timer and one
  long-press timer) for both buttons.  An auto-repeat step evaluated for either button
  advances that counter by one, modulo 256; with both buttons held past the long-press
  threshold an iteration advances it by two.
\<close>

theorem shared_repeat_counter:
  assumes "longPressTimer s \<noteq> 0" "nowTime - longPressTimer s > LONG_PRESS"
  shows "(getPin i b = LOW \<longrightarrow>
            skipCounter (snd (checkButton i b inc nowTime s)) = skipCounter s + 1) \<and>
         (getPin i PB7 = LOW \<and> getPin i PB6 = LOW \<longrightarrow>
            skipCounter (snd (editSetpoint i nowTime s)) = skipCounter s + 2)"
  using assms
  by (simp add: checkButton_longPress editSetpoint_def Let_def split_def)

theorem shared_repeat_counter_witness:
  "longPressTimer both_held \<noteq> 0 \<and> 2801 - longPressTimer both_held > LONG_PRESS \<and>
   getPin (reading 2801 400 0 0 0) PB7 = LOW \<and> getPin (reading 2801 400 0 0 0) PB6 = LOW \<and>
   skipCounter (snd (checkButton (reading 2801 400 0 0 0) PB7 1 2801 both_held)) =
     skipCounter both_held + 1 \<and>
   skipCounter (snd (editSetpoint (reading 2801 400 0 0 0) 2801 both_held)) =
     skipCounter both_held + 2"
proof -
  have h1: "longPressTimer both_held \<noteq> 0"
    by (simp add: both_held_def)
  have h2: "2801 - longPressTimer both_held > LONG_PRESS"
    by (simp add: both_held_def LONG_PRESS_def)
  have h3: "getPin (reading 2801 400 0 0 0) PB7 = LOW" "getPin (reading 2801 400 0 0 0) PB6 = LOW"
    by (simp_all add: LOW_def)
  show ?thesis
    using h1 h2 h3
      shared_repeat_counter [OF h1 h2, of "reading 2801 400 0 0 0" PB7 1]
    by simp
qed

lemma both_held_plus:
  "snd (checkButton (reading 2801 400 0 0 0) PB7 1 2801 both_held) =
     both_held\<lparr>skipCounter := 1, eepromData := factory_record\<lparr>heatPoint := 271\<rparr>,
       haveToSaveData := 2801, heatPointDisplayTime := 7801\<rparr>"
  by (simp add: both_held_def setup_main_factory checkButton_def Let_def LOW_def LONG_PRESS_def
      FAST_INCREMENT_def setHeatPoint_def HEATPOINT_DISPLAY_DELAY_def)

text \<open>
  C9 as stated fails: with both buttons held, the auto-repeat step of the "increase"
  button moves the counter from 0 to 1, and the step of the "decrease" button that
  follows, which alone would have lowered the setpoint to 269, leaves it at 271.
\<close>

theorem shared_counter_counterexample:
  "skipCounter both_held = 0 \<and>
   skipCounter (snd (checkButton (reading 2801 400 0 0 0) PB7 1 2801 both_held)) = 1 \<and>
   heatPoint (eepromData (snd (checkButton (reading 2801 400 0 0 0) PB6 (- 1) 2801 both_held)))
     = 269 \<and>
   heatPoint (eepromData (snd (checkButton (reading 2801 400 0 0 0) PB6 (- 1) 2801
     (snd (checkButton (reading 2801 400 0 0 0) PB7 1 2801 both_held))))) = 271"
  unfolding both_held_plus
  by (simp add: both_held_def setup_main_factory checkButton_def Let_def LOW_def LONG_PRESS_def
      FAST_INCREMENT_def setHeatPoint_def HEATPOINT_DISPLAY_DELAY_def)


subsection \<open>One iteration, seen from the buttons and the pending save\<close>

lemma checkPendingDataSave_pending:
  "haveToSaveData (checkPendingDataSave sy n s) =
     (if haveToSaveData s \<noteq> 0 \<and> n - haveToSaveData s > EEPROM_SAVE_TIMEOUT then 0
      else haveToSaveData s)"
  "eepromWrites (out (checkPendingDataSave sy n s)) =
     eepromWrites (out s) @
       (if haveToSaveData s \<noteq> 0 \<and> n - haveToSaveData s > EEPROM_SAVE_TIMEOUT
        then [eepromData s] else [])"
  by (simp_all add: checkPendingDataSave_def Let_def emit_def)

lemma checkButton_out [simp]:
  "beeps (out (snd (checkButton i b inc n s))) =
     beeps (out s) +
       (if getPin i b = LOW \<and> \<not> n - (if longPressTimer s = 0
              then (if buttonTimer s = 0 then n else buttonTimer s) else longPressTimer s)
              > LONG_PRESS \<and>
           n - (if buttonTimer s = 0 then n else buttonTimer s) > SHORT_PRESS then 1 else 0)"
  by (simp add: checkButton_def Let_def emit_def setHeatPoint_def)

lemma regulate_summary:
  "\<exists>B. sameButtons B s \<and>
     buttonTimer (regulate sy i n adc s) = buttonTimer (snd (editSetpoint i n B)) \<and>
     longPressTimer (regulate sy i n adc s) = longPressTimer (snd (editSetpoint i n B)) \<and>
     skipCounter (regulate sy i n adc s) = skipCounter (snd (editSetpoint i n B)) \<and>
     eepromData (regulate sy i n adc s) = eepromData (snd (editSetpoint i n B)) \<and>
     beeps (out (regulate sy i n adc s)) = beeps (out (snd (editSetpoint i n B))) \<and>
     haveToSaveData (regulate sy i n adc s) =
       (if haveToSaveData (snd (editSetpoint i n B)) \<noteq> 0 \<and>
           n - haveToSaveData (snd (editSetpoint i n B)) > EEPROM_SAVE_TIMEOUT
        then 0 else haveToSaveData (snd (editSetpoint i n B))) \<and>
     eepromWrites (out (regulate sy i n adc s)) =
       eepromWrites (out s) @
       (if haveToSaveData (snd (editSetpoint i n B)) \<noteq> 0 \<and>
           n - haveToSaveData (snd (editSetpoint i n B)) > EEPROM_SAVE_TIMEOUT
        then [eepromData (snd (editSetpoint i n B))] else [])"
  apply (rule exI [where x = "emit (PWM_duty (heaterDuty (fst (checkSleep i n s))
        (tempDiff (fst (checkSleep i n s)) (heatPoint (eepromData s)) (degrees adc))))
       (sleepChange (fst (checkSleep i n s)) (snd (checkSleep i n s)))"])
  apply (simp add: regulate_def Let_def split_def sameButtons_def checkPendingDataSave_pending
      emit_def)
  done


lemma mainLoop_summary:
  assumes "faultCode (filteredTemp i s) = 0"
  shows "\<exists>B. sameButtons B s \<and>
     buttonTimer (mainLoop sy i s) = buttonTimer (snd (editSetpoint i (millis i) B)) \<and>
     longPressTimer (mainLoop sy i s) = longPressTimer (snd (editSetpoint i (millis i) B)) \<and>
     skipCounter (mainLoop sy i s) = skipCounter (snd (editSetpoint i (millis i) B)) \<and>
     eepromData (mainLoop sy i s) = eepromData (snd (editSetpoint i (millis i) B)) \<and>
     beeps (out (mainLoop sy i s)) = beeps (out (snd (editSetpoint i (millis i) B))) \<and>
     haveToSaveData (mainLoop sy i s) =
       (if haveToSaveData (snd (editSetpoint i (millis i) B)) \<noteq> 0 \<and>
           millis i - haveToSaveData (snd (editSetpoint i (millis i) B)) > EEPROM_SAVE_TIMEOUT
        then 0 else haveToSaveData (snd (editSetpoint i (millis i) B))) \<and>
     eepromWrites (out (mainLoop sy i s)) =
       eepromWrites (out s) @
       (if haveToSaveData (snd (editSetpoint i (millis i) B)) \<noteq> 0 \<and>
           millis i - haveToSaveData (snd (editSetpoint i (millis i) B)) > EEPROM_SAVE_TIMEOUT
        then [eepromData (snd (editSetpoint i (millis i) B))] else [])"
proof -
  let ?s2 = "s\<lparr>oldADCUI := drop_bit 2 (oldADCUI s * 3 + ADC_read i ADC1_CSR_CH1),
        oldADCVal := filteredTemp i s\<rparr>"
  obtain B where B: "sameButtons B ?s2"
    and rest: "buttonTimer (regulate sy i (millis i) (filteredTemp i s) ?s2) =
        buttonTimer (snd (editSetpoint i (millis i) B)) \<and>
     longPressTimer (regulate sy i (millis i) (filteredTemp i s) ?s2) =
        longPressTimer (snd (editSetpoint i (millis i) B)) \<and>
     skipCounter (regulate sy i (millis i) (filteredTemp i s) ?s2) =
        skipCounter (snd (editSetpoint i (millis i) B)) \<and>
     eepromData (regulate sy i (millis i) (filteredTemp i s) ?s2) =
        eepromData (snd (editSetpoint i (millis i) B)) \<and>
     beeps (out (regulate sy i (millis i) (filteredTemp i s) ?s2)) =
        beeps (out (snd (editSetpoint i (millis i) B))) \<and>
     haveToSaveData (regulate sy i (millis i) (filteredTemp i s) ?s2) =
       (if haveToSaveData (snd (editSetpoint i (millis i) B)) \<noteq> 0 \<and>
           millis i - haveToSaveData (snd (editSetpoint i (millis i) B)) > EEPROM_SAVE_TIMEOUT
        then 0 else haveToSaveData (snd (editSetpoint i (millis i) B))) \<and>
     eepromWrites (out (regulate sy i (millis i) (filteredTemp i s) ?s2)) =
       eepromWrites (out ?s2) @
       (if haveToSaveData (snd (editSetpoint i (millis i) B)) \<noteq> 0 \<and>
           millis i - haveToSaveData (snd (editSetpoint i (millis i) B)) > EEPROM_SAVE_TIMEOUT
        then [eepromData (snd (editSetpoint i (millis i) B))] else [])"
    using regulate_summary [of ?s2 sy i "millis i" "filteredTemp i s"] by blast
  from B have "sameButtons B s" by (simp add: sameButtons_def)
  with rest show ?thesis
    unfolding mainLoop_nofault [OF assms] by (intro exI [where x = B]) simp
qed

lemma mainLoop_oldADCVal [simp]: "oldADCVal (mainLoop sy i s) = filteredTemp i s"
  by (simp add: mainLoop_def Let_def filteredTemp_def faultStop_def emit_def regulate_def
      split_def)

lemma checkButton_released: "getPin i b \<noteq> LOW \<Longrightarrow> checkButton i b inc n s = (LOW, s)"
  by (simp add: checkButton_def)

lemma checkButton_timers:
  "buttonTimer (snd (checkButton i b inc n s)) =
     (if getPin i b = LOW then
        (if \<not> n - (if longPressTimer s = 0
              then (if buttonTimer s = 0 then n else buttonTimer s) else longPressTimer s)
              > LONG_PRESS \<and>
            n - (if buttonTimer s = 0 then n else buttonTimer s) > SHORT_PRESS
         then 0 else (if buttonTimer s = 0 then n else buttonTimer s))
      else buttonTimer s)"
  "longPressTimer (snd (checkButton i b inc n s)) =
     (if getPin i b = LOW then
        (if longPressTimer s = 0
         then (if buttonTimer s = 0 then n else buttonTimer s) else longPressTimer s)
      else longPressTimer s)"
  "skipCounter (snd (checkButton i b inc n s)) =
     (if getPin i b = LOW \<and>
         n - (if longPressTimer s = 0
              then (if buttonTimer s = 0 then n else buttonTimer s) else longPressTimer s)
           > LONG_PRESS
      then skipCounter s + 1 else skipCounter s)"
  by (simp_all add: checkButton_def Let_def emit_def setHeatPoint_def)

lemma checkButton_edit:
  "haveToSaveData (snd (checkButton i b inc n s)) =
     (if getPin i b = LOW \<and> pressFires n s then n else haveToSaveData s)"
  "eepromData (snd (checkButton i b inc n s)) =
     (if getPin i b = LOW \<and> pressFires n s
      then (eepromData s)\<lparr>heatPoint := heatPoint (eepromData s) + scast inc\<rparr>
      else eepromData s)"
  by (simp_all add: checkButton_def pressFires_def Let_def emit_def setHeatPoint_def)

lemma checkButton_fst:
  "fst (checkButton i b inc n s) = (if getPin i b = LOW then HIGH else LOW)"
  by (simp add: checkButton_def Let_def)

lemma checkHeatPointValidity_eeprom:
  "eepromData (checkHeatPointValidity s) =
     (eepromData s)\<lparr>heatPoint := clampHeat (heatPoint (eepromData s))\<rparr>"
  by (simp add: checkHeatPointValidity_def Let_def setHeatPoint_def MIN_HEAT_def MAX_HEAT_def
      clampHeat_def)

lemma clamp_inc:
  fixes h :: u16
  assumes "50 \<le> h" "h \<le> 450"
  shows "clampHeat (h + 1) = (if h = 450 then 450 else h + 1)"
proof -
  from assms have b: "50 \<le> unat h" "unat h \<le> 450" by (simp_all add: word_le_nat_alt)
  then have u: "unat (h + 1) = unat h + 1" by (simp add: unat_word_ariths)
  have e: "h = 450 \<longleftrightarrow> unat h = 450" by (simp add: word_unat_eq_iff)
  show ?thesis using b u e by (simp add: clampHeat_def word_less_nat_alt)
qed

lemma clamp_dec:
  fixes h :: u16
  assumes "50 \<le> h" "h \<le> 450"
  shows "clampHeat (h - 1) = (if h = 50 then 50 else h - 1)"
proof -
  from assms have b: "50 \<le> unat h" "unat h \<le> 450" by (simp_all add: word_le_nat_alt)
  then have u: "unat (h - 1) = unat h - 1" by (simp add: unat_sub word_le_nat_alt)
  have e: "h = 50 \<longleftrightarrow> unat h = 50" by (simp add: word_unat_eq_iff)
  show ?thesis using b u e by (auto simp add: clampHeat_def word_less_nat_alt)
qed

lemma clamp_id:
  fixes h :: u16
  assumes "50 \<le> h" "h \<le> 450"
  shows "clampHeat h = h"
  using assms by (auto simp add: clampHeat_def word_less_nat_alt word_le_nat_alt)

lemma editSetpoint_released:
  assumes "getPin i PB7 \<noteq> LOW" "getPin i PB6 \<noteq> LOW"
  shows "editSetpoint i n s =
           (0, checkHeatPointValidity (s\<lparr>buttonTimer := 0, longPressTimer := 0\<rparr>))"
  using assms by (simp add: editSetpoint_def checkButton_released LOW_def)

lemma editSetpoint_plus:
  assumes "getPin i PB7 = LOW" "getPin i PB6 \<noteq> LOW"
  shows "snd (editSetpoint i n s) = checkHeatPointValidity (snd (checkButton i PB7 1 n s))"
  using assms
  by (simp add: editSetpoint_def checkButton_released checkButton_fst split_def Let_def
      LOW_def HIGH_def)

lemma editSetpoint_minus:
  assumes "getPin i PB7 \<noteq> LOW" "getPin i PB6 = LOW"
  shows "snd (editSetpoint i n s) = checkHeatPointValidity (snd (checkButton i PB6 (- 1) n s))"
  using assms
  by (simp add: editSetpoint_def checkButton_released checkButton_fst split_def Let_def
      LOW_def HIGH_def)

lemma released_step:
  assumes nf: "faultCode (filteredTemp i s) = 0"
    and pins: "getPin i PB7 \<noteq> LOW" "getPin i PB6 \<noteq> LOW"
    and rng: "50 \<le> heatPoint (eepromData s)" "heatPoint (eepromData s) \<le> 450"
  shows "buttonTimer (mainLoop sy i s) = 0"
    and "longPressTimer (mainLoop sy i s) = 0"
    and "skipCounter (mainLoop sy i s) = skipCounter s"
    and "eepromData (mainLoop sy i s) = eepromData s"
    and "beeps (out (mainLoop sy i s)) = beeps (out s)"
    and "haveToSaveData (mainLoop sy i s) =
           (if haveToSaveData s \<noteq> 0 \<and> millis i - haveToSaveData s > EEPROM_SAVE_TIMEOUT
            then 0 else haveToSaveData s)"
    and "eepromWrites (out (mainLoop sy i s)) = eepromWrites (out s) @
           (if haveToSaveData s \<noteq> 0 \<and> millis i - haveToSaveData s > EEPROM_SAVE_TIMEOUT
            then [eepromData s] else [])"
proof -
  from mainLoop_summary [OF nf, of sy] obtain B where B: "sameButtons B s"
    and r: "buttonTimer (mainLoop sy i s) = buttonTimer (snd (editSetpoint i (millis i) B))"
     "longPressTimer (mainLoop sy i s) = longPressTimer (snd (editSetpoint i (millis i) B))"
     "skipCounter (mainLoop sy i s) = skipCounter (snd (editSetpoint i (millis i) B))"
     "eepromData (mainLoop sy i s) = eepromData (snd (editSetpoint i (millis i) B))"
     "beeps (out (mainLoop sy i s)) = beeps (out (snd (editSetpoint i (millis i) B)))"
     "haveToSaveData (mainLoop sy i s) =
       (if haveToSaveData (snd (editSetpoint i (millis i) B)) \<noteq> 0 \<and>
           millis i - haveToSaveData (snd (editSetpoint i (millis i) B)) > EEPROM_SAVE_TIMEOUT
        then 0 else haveToSaveData (snd (editSetpoint i (millis i) B)))"
     "eepromWrites (out (mainLoop sy i s)) =
       eepromWrites (out s) @
       (if haveToSaveData (snd (editSetpoint i (millis i) B)) \<noteq> 0 \<and>
           millis i - haveToSaveData (snd (editSetpoint i (millis i) B)) > EEPROM_SAVE_TIMEOUT
        then [eepromData (snd (editSetpoint i (millis i) B))] else [])"
    by blast
  from B rng have e: "eepromData (checkHeatPointValidity (B\<lparr>buttonTimer := 0, longPressTimer := 0\<rparr>))
       = eepromData s"
    by (simp add: checkHeatPointValidity_eeprom sameButtons_def clamp_id)
  show "buttonTimer (mainLoop sy i s) = 0" "longPressTimer (mainLoop sy i s) = 0"
    "skipCounter (mainLoop sy i s) = skipCounter s"
    "eepromData (mainLoop sy i s) = eepromData s"
    "beeps (out (mainLoop sy i s)) = beeps (out s)"
    "haveToSaveData (mainLoop sy i s) =
           (if haveToSaveData s \<noteq> 0 \<and> millis i - haveToSaveData s > EEPROM_SAVE_TIMEOUT
            then 0 else haveToSaveData s)"
    "eepromWrites (out (mainLoop sy i s)) = eepromWrites (out s) @
           (if haveToSaveData s \<noteq> 0 \<and> millis i - haveToSaveData s > EEPROM_SAVE_TIMEOUT
            then [eepromData s] else [])"
    using B e unfolding r editSetpoint_released [OF pins]
    by (simp_all add: sameButtons_def)
qed


lemma held_step:
  assumes nf: "faultCode (filteredTemp i s) = 0"
    and pins: "onlyHeld btn i" "btn = PB7 \<or> btn = PB6"
    and rng: "50 \<le> heatPoint (eepromData s)" "heatPoint (eepromData s) \<le> 450"
    and bt1: "bt1 = (if buttonTimer s = 0 then millis i else buttonTimer s)"
    and lp1: "lp1 = (if longPressTimer s = 0 then bt1 else longPressTimer s)"
    and nolong: "millis i - lp1 \<le> LONG_PRESS"
  shows "buttonTimer (mainLoop sy i s) = (if millis i - bt1 > SHORT_PRESS then 0 else bt1)"
    and "longPressTimer (mainLoop sy i s) = lp1"
    and "skipCounter (mainLoop sy i s) = skipCounter s"
    and "eepromData (mainLoop sy i s) =
           (if millis i - bt1 > SHORT_PRESS
            then (eepromData s)\<lparr>heatPoint := stepHeat btn (heatPoint (eepromData s))\<rparr>
            else eepromData s)"
    and "beeps (out (mainLoop sy i s)) =
           beeps (out s) + (if millis i - bt1 > SHORT_PRESS then 1 else 0)"
    and "haveToSaveData (mainLoop sy i s) =
           (if millis i - bt1 > SHORT_PRESS then millis i
            else if haveToSaveData s \<noteq> 0 \<and> millis i - haveToSaveData s > EEPROM_SAVE_TIMEOUT
            then 0 else haveToSaveData s)"
    and "eepromWrites (out (mainLoop sy i s)) = eepromWrites (out s) @
           (if \<not> millis i - bt1 > SHORT_PRESS \<and>
               haveToSaveData s \<noteq> 0 \<and> millis i - haveToSaveData s > EEPROM_SAVE_TIMEOUT
            then [eepromData s] else [])"
proof -
  define inc :: "8 word" where "inc = (if btn = PB7 then 1 else - 1)"
  from pins have p: "getPin i btn = LOW" by (simp add: onlyHeld_def)
  have es: "snd (editSetpoint i (millis i) X) =
      checkHeatPointValidity (snd (checkButton i btn inc (millis i) X))" for X
    using pins by (auto simp add: onlyHeld_def inc_def editSetpoint_plus editSetpoint_minus)
  have cl: "clampHeat (heatPoint (eepromData s) + scast inc) =
      stepHeat btn (heatPoint (eepromData s))"
    using pins(2) clamp_inc [OF rng] clamp_dec [OF rng] by (auto simp add: inc_def stepHeat_def)
  from mainLoop_summary [OF nf, of sy] obtain B where B: "sameButtons B s"
    and r: "buttonTimer (mainLoop sy i s) = buttonTimer (snd (editSetpoint i (millis i) B))"
     "longPressTimer (mainLoop sy i s) = longPressTimer (snd (editSetpoint i (millis i) B))"
     "skipCounter (mainLoop sy i s) = skipCounter (snd (editSetpoint i (millis i) B))"
     "eepromData (mainLoop sy i s) = eepromData (snd (editSetpoint i (millis i) B))"
     "beeps (out (mainLoop sy i s)) = beeps (out (snd (editSetpoint i (millis i) B)))"
     "haveToSaveData (mainLoop sy i s) =
       (if haveToSaveData (snd (editSetpoint i (millis i) B)) \<noteq> 0 \<and>
           millis i - haveToSaveData (snd (editSetpoint i (millis i) B)) > EEPROM_SAVE_TIMEOUT
        then 0 else haveToSaveData (snd (editSetpoint i (millis i) B)))"
     "eepromWrites (out (mainLoop sy i s)) =
       eepromWrites (out s) @
       (if haveToSaveData (snd (editSetpoint i (millis i) B)) \<noteq> 0 \<and>
           millis i - haveToSaveData (snd (editSetpoint i (millis i) B)) > EEPROM_SAVE_TIMEOUT
        then [eepromData (snd (editSetpoint i (millis i) B))] else [])"
    by blast
  from B have f: "buttonTimer B = buttonTimer s" "longPressTimer B = longPressTimer s"
    "skipCounter B = skipCounter s" "eepromData B = eepromData s"
    "haveToSaveData B = haveToSaveData s" "beeps (out B) = beeps (out s)"
    by (simp_all add: sameButtons_def)
  have nl: "longPressTimer s \<noteq> 0 \<Longrightarrow> \<not> millis i - longPressTimer s > LONG_PRESS"
    "longPressTimer s = 0 \<Longrightarrow> buttonTimer s \<noteq> 0 \<Longrightarrow>
       \<not> millis i - buttonTimer s > LONG_PRESS"
    "\<not> LONG_PRESS < 0"
    using nolong unfolding lp1 bt1 by (simp_all add: not_less)
  have pf: "pressFires (millis i) B = (millis i - bt1 > SHORT_PRESS)"
    by (simp add: pressFires_def f bt1 lp1 Let_def nl)
  have z: "\<not> EEPROM_SAVE_TIMEOUT < 0" by simp
  note ci = cl clamp_id [OF rng]
  show "buttonTimer (mainLoop sy i s) = (if millis i - bt1 > SHORT_PRESS then 0 else bt1)"
    unfolding r es
    by (simp add: checkButton_timers p f bt1 lp1 nl)
  show "longPressTimer (mainLoop sy i s) = lp1"
    unfolding r es
    by (simp add: checkButton_timers p f bt1 lp1)
  show "skipCounter (mainLoop sy i s) = skipCounter s"
    unfolding r es
    by (simp add: checkButton_timers p f bt1 lp1 nl)
  show "eepromData (mainLoop sy i s) =
           (if millis i - bt1 > SHORT_PRESS
            then (eepromData s)\<lparr>heatPoint := stepHeat btn (heatPoint (eepromData s))\<rparr>
            else eepromData s)"
    unfolding r es
    by (simp add: checkHeatPointValidity_eeprom checkButton_edit p pf f ci)
  show "beeps (out (mainLoop sy i s)) =
           beeps (out s) + (if millis i - bt1 > SHORT_PRESS then 1 else 0)"
    unfolding r es
    by (simp add: p f bt1 lp1 nl)
  show "haveToSaveData (mainLoop sy i s) =
           (if millis i - bt1 > SHORT_PRESS then millis i
            else if haveToSaveData s \<noteq> 0 \<and> millis i - haveToSaveData s > EEPROM_SAVE_TIMEOUT
            then 0 else haveToSaveData s)"
    unfolding r es
    by (simp add: checkButton_edit p pf f z)
  show "eepromWrites (out (mainLoop sy i s)) = eepromWrites (out s) @
           (if \<not> millis i - bt1 > SHORT_PRESS \<and>
               haveToSaveData s \<noteq> 0 \<and> millis i - haveToSaveData s > EEPROM_SAVE_TIMEOUT
            then [eepromData s] else [])"
    unfolding r es
    by (simp add: checkHeatPointValidity_eeprom checkButton_edit p pf f z ci)
qed

lemma run_append: "run sy (xs @ ys) s = run sy ys (run sy xs s)"
  by (induction xs arbitrary: s) simp_all

lemma faultFree_append:
  "faultFree sy (xs @ ys) s \<longleftrightarrow> faultFree sy xs s \<and> faultFree sy ys (run sy xs s)"
  by (induction xs arbitrary: s) simp_all

lemma mainLoop_range:
  assumes "faultCode (filteredTemp i s) = 0"
  shows "50 \<le> heatPoint (eepromData (mainLoop sy i s))"
    and "heatPoint (eepromData (mainLoop sy i s)) \<le> 450"
  by (simp_all add: mainLoop_nofault [OF assms] regulate_range)

lemma filtered_ok:
  fixes v a :: u16
  assumes "v \<le> 1000" "40 \<le> a" "a \<le> 1000"
  shows "faultCode (drop_bit 2 (v * 3 + a)) = 0" and "drop_bit 2 (v * 3 + a) \<le> 1000"
proof -
  from assms have b: "unat v \<le> 1000" "40 \<le> unat a" "unat a \<le> 1000"
    by (simp_all add: word_le_nat_alt)
  then have s: "unat (v * 3 + a) = unat v * 3 + unat a"
    by (simp add: unat_word_ariths)
  have d: "unat (drop_bit 2 (v * 3 + a)) = (unat v * 3 + unat a) div 4"
    by (simp add: unat_drop_bit_eq s drop_bit_eq_div unat_div_distrib)
  from b d have "10 \<le> unat (drop_bit 2 (v * 3 + a))" "unat (drop_bit 2 (v * 3 + a)) \<le> 1000"
    by simp_all
  then show "faultCode (drop_bit 2 (v * 3 + a)) = 0" "drop_bit 2 (v * 3 + a) \<le> 1000"
    by (simp_all add: faultCode_def word_less_nat_alt word_le_nat_alt not_less)
qed

lemma faultFree_steady:
  assumes "oldADCVal s \<le> 1000" "\<forall>i\<in>set ins. 40 \<le> adcCH0 i \<and> adcCH0 i \<le> 1000"
  shows "faultFree sy ins s"
  using assms
proof (induction ins arbitrary: s)
  case Nil
  then show ?case by simp
next
  case (Cons i ins)
  from Cons.prems have a: "40 \<le> adcCH0 i" "adcCH0 i \<le> 1000" by simp_all
  have f: "filteredTemp i s = drop_bit 2 (oldADCVal s * 3 + adcCH0 i)"
    by (simp add: filteredTemp_def)
  from filtered_ok [OF Cons.prems(1) a] f
  have "faultCode (filteredTemp i s) = 0" "oldADCVal (mainLoop sy i s) \<le> 1000"
    by simp_all
  with Cons show ?case by simp
qed

lemma hold_quiet:
  assumes "faultFree sy ins s"
    and "\<forall>i\<in>set ins. onlyHeld btn i \<and>
           millis i - l \<le> LONG_PRESS \<and> millis i - b \<le> SHORT_PRESS"
    and "buttonTimer s = b" "b \<noteq> 0" "longPressTimer s = l" "l \<noteq> 0"
    and "50 \<le> heatPoint (eepromData s)" "heatPoint (eepromData s) \<le> 450"
    and "btn = PB7 \<or> btn = PB6"
  shows "buttonTimer (run sy ins s) = b \<and> longPressTimer (run sy ins s) = l \<and>
         skipCounter (run sy ins s) = skipCounter s \<and>
         eepromData (run sy ins s) = eepromData s \<and>
         beeps (out (run sy ins s)) = beeps (out s) \<and>
         ((\<forall>i\<in>set ins. haveToSaveData s = 0 \<or>
              millis i - haveToSaveData s \<le> EEPROM_SAVE_TIMEOUT) \<longrightarrow>
            haveToSaveData (run sy ins s) = haveToSaveData s \<and>
            eepromWrites (out (run sy ins s)) = eepromWrites (out s))"
  using assms
proof (induction ins arbitrary: s)
  case Nil
  then show ?case by simp
next
  case (Cons i ins)
  from Cons.prems have nf: "faultCode (filteredTemp i s) = 0"
    and ff: "faultFree sy ins (mainLoop sy i s)" by simp_all
  from Cons.prems have pins: "onlyHeld btn i"
    and w: "millis i - l \<le> LONG_PRESS" "\<not> millis i - b > SHORT_PRESS"
    by (simp_all add: not_less)
  have bt1: "b = (if buttonTimer s = 0 then millis i else buttonTimer s)"
    using Cons.prems by simp
  have lp1: "l = (if longPressTimer s = 0 then b else longPressTimer s)"
    using Cons.prems by simp
  note st = held_step [OF nf pins Cons.prems(9) Cons.prems(7,8) bt1 lp1 w(1), of sy]
  have 1: "buttonTimer (mainLoop sy i s) = b" "longPressTimer (mainLoop sy i s) = l"
    "skipCounter (mainLoop sy i s) = skipCounter s"
    "eepromData (mainLoop sy i s) = eepromData s"
    "beeps (out (mainLoop sy i s)) = beeps (out s)"
    using st w(2) by simp_all
  have 2: "haveToSaveData s = 0 \<or> millis i - haveToSaveData s \<le> EEPROM_SAVE_TIMEOUT \<Longrightarrow>
      haveToSaveData (mainLoop sy i s) = haveToSaveData s \<and>
      eepromWrites (out (mainLoop sy i s)) = eepromWrites (out s)"
    using st(6,7) w(2) by (auto simp add: not_less [symmetric])
  have ih: "buttonTimer (run sy ins (mainLoop sy i s)) = b \<and>
         longPressTimer (run sy ins (mainLoop sy i s)) = l \<and>
         skipCounter (run sy ins (mainLoop sy i s)) = skipCounter (mainLoop sy i s) \<and>
         eepromData (run sy ins (mainLoop sy i s)) = eepromData (mainLoop sy i s) \<and>
         beeps (out (run sy ins (mainLoop sy i s))) = beeps (out (mainLoop sy i s)) \<and>
         ((\<forall>j\<in>set ins. haveToSaveData (mainLoop sy i s) = 0 \<or>
              millis j - haveToSaveData (mainLoop sy i s) \<le> EEPROM_SAVE_TIMEOUT) \<longrightarrow>
            haveToSaveData (run sy ins (mainLoop sy i s)) = haveToSaveData (mainLoop sy i s) \<and>
            eepromWrites (out (run sy ins (mainLoop sy i s))) =
              eepromWrites (out (mainLoop sy i s)))"
    using Cons.prems 1 by (intro Cons.IH ff) simp_all
  show ?case using ih 1 2 by auto
qed

lemma editSetpoint_pending:
  "haveToSaveData (snd (editSetpoint i n s)) =
     (if getPin i PB7 = LOW \<and> pressFires n s \<or>
         getPin i PB6 = LOW \<and> pressFires n (snd (checkButton i PB7 1 n s))
      then n else haveToSaveData s)"
  by (simp add: editSetpoint_def split_def Let_def checkButton_edit)

lemma pressFires_cong:
  assumes "buttonTimer b = buttonTimer s" "longPressTimer b = longPressTimer s"
    "skipCounter b = skipCounter s"
  shows "pressFires n b = pressFires n s"
    and "pressFires n (snd (checkButton i p inc n b)) = pressFires n (snd (checkButton i p inc n s))"
  using assms by (simp_all add: pressFires_def checkButton_timers Let_def)

lemma mainLoop_pending:
  assumes nf: "faultCode (filteredTemp i s) = 0"
  shows "haveToSaveData (mainLoop sy i s) =
           (if editApplied i s then millis i
            else if haveToSaveData s \<noteq> 0 \<and> millis i - haveToSaveData s > EEPROM_SAVE_TIMEOUT
            then 0 else haveToSaveData s)"
    and "eepromWrites (out (mainLoop sy i s)) = eepromWrites (out s) @
           (if \<not> editApplied i s \<and>
               haveToSaveData s \<noteq> 0 \<and> millis i - haveToSaveData s > EEPROM_SAVE_TIMEOUT
            then [eepromData (mainLoop sy i s)] else [])"
proof -
  from mainLoop_summary [OF nf, of sy] obtain B where B: "sameButtons B s"
    and r: "eepromData (mainLoop sy i s) = eepromData (snd (editSetpoint i (millis i) B))"
     "haveToSaveData (mainLoop sy i s) =
       (if haveToSaveData (snd (editSetpoint i (millis i) B)) \<noteq> 0 \<and>
           millis i - haveToSaveData (snd (editSetpoint i (millis i) B)) > EEPROM_SAVE_TIMEOUT
        then 0 else haveToSaveData (snd (editSetpoint i (millis i) B)))"
     "eepromWrites (out (mainLoop sy i s)) =
       eepromWrites (out s) @
       (if haveToSaveData (snd (editSetpoint i (millis i) B)) \<noteq> 0 \<and>
           millis i - haveToSaveData (snd (editSetpoint i (millis i) B)) > EEPROM_SAVE_TIMEOUT
        then [eepromData (snd (editSetpoint i (millis i) B))] else [])"
    by blast
  from B have f: "buttonTimer B = buttonTimer s" "longPressTimer B = longPressTimer s"
    "skipCounter B = skipCounter s" "haveToSaveData B = haveToSaveData s"
    by (simp_all add: sameButtons_def)
  have e: "haveToSaveData (snd (editSetpoint i (millis i) B)) =
      (if editApplied i s then millis i else haveToSaveData s)"
    unfolding editSetpoint_pending editApplied_def
    by (simp add: nf pressFires_cong [OF f(1,2,3)] f(4))
  have z: "\<not> EEPROM_SAVE_TIMEOUT < 0" by simp
  show "haveToSaveData (mainLoop sy i s) =
           (if editApplied i s then millis i
            else if haveToSaveData s \<noteq> 0 \<and> millis i - haveToSaveData s > EEPROM_SAVE_TIMEOUT
            then 0 else haveToSaveData s)"
    unfolding r(2) e using z by simp
  show "eepromWrites (out (mainLoop sy i s)) = eepromWrites (out s) @
           (if \<not> editApplied i s \<and>
               haveToSaveData s \<noteq> 0 \<and> millis i - haveToSaveData s > EEPROM_SAVE_TIMEOUT
            then [eepromData (mainLoop sy i s)] else [])"
    unfolding r(3) e r(1) using z by simp
qed

lemma mainLoop_fault_pending:
  assumes "faultCode (filteredTemp i s) \<noteq> 0"
  shows "haveToSaveData (mainLoop sy i s) = haveToSaveData s"
    and "eepromWrites (out (mainLoop sy i s)) = eepromWrites (out s)"
    and "eepromData (mainLoop sy i s) = eepromData s"
  by (simp_all add: mainLoop_fault [OF assms] faultStop_def emit_def)

lemma quiet_flush:
  assumes "faultFree sy ins s"
    and "\<forall>i\<in>set ins. getPin i PB7 \<noteq> LOW \<and> getPin i PB6 \<noteq> LOW"
    and "50 \<le> heatPoint (eepromData s)" "heatPoint (eepromData s) \<le> 450"
  shows "eepromData (run sy ins s) = eepromData s \<and>
         (if haveToSaveData s \<noteq> 0 \<and>
             (\<exists>i\<in>set ins. millis i - haveToSaveData s > EEPROM_SAVE_TIMEOUT)
          then haveToSaveData (run sy ins s) = 0 \<and>
               eepromWrites (out (run sy ins s)) = eepromWrites (out s) @ [eepromData s]
          else haveToSaveData (run sy ins s) = haveToSaveData s \<and>
               eepromWrites (out (run sy ins s)) = eepromWrites (out s))"
  using assms
proof (induction ins arbitrary: s)
  case Nil
  then show ?case by simp
next
  case (Cons i ins)
  from Cons.prems have nf: "faultCode (filteredTemp i s) = 0"
    and ff: "faultFree sy ins (mainLoop sy i s)"
    and pins: "getPin i PB7 \<noteq> LOW" "getPin i PB6 \<noteq> LOW"
    and rest: "\<forall>i\<in>set ins. getPin i PB7 \<noteq> LOW \<and> getPin i PB6 \<noteq> LOW"
    by simp_all
  note st = released_step [OF nf pins Cons.prems(3,4), of sy]
  have rng: "50 \<le> heatPoint (eepromData (mainLoop sy i s))"
    "heatPoint (eepromData (mainLoop sy i s)) \<le> 450"
    using Cons.prems(3,4) st(4) by simp_all
  note ih = Cons.IH [OF ff rest rng]
  show ?case
  proof (cases "haveToSaveData s \<noteq> 0 \<and> millis i - haveToSaveData s > EEPROM_SAVE_TIMEOUT")
    case True
    with st have "haveToSaveData (mainLoop sy i s) = 0"
      "eepromWrites (out (mainLoop sy i s)) = eepromWrites (out s) @ [eepromData s]"
      "eepromData (mainLoop sy i s) = eepromData s"
      by simp_all
    with ih True show ?thesis by simp
  next
    case False
    with st have "haveToSaveData (mainLoop sy i s) = haveToSaveData s"
      "eepromWrites (out (mainLoop sy i s)) = eepromWrites (out s)"
      "eepromData (mainLoop sy i s) = eepromData s"
      by auto
    with ih False show ?thesis by (auto split: if_splits)
  qed
qed

lemma noArmingEdit_no_write:
  assumes "haveToSaveData s = 0" "noArmingEdit sy ins s"
  shows "eepromWrites (out (run sy ins s)) = eepromWrites (out s) \<and>
         haveToSaveData (run sy ins s) = 0"
  using assms
proof (induction ins arbitrary: s)
  case Nil
  then show ?case by simp
next
  case (Cons i ins)
  then have c: "\<not> editApplied i s \<or> millis i = 0"
    and n: "noArmingEdit sy ins (mainLoop sy i s)" by auto
  have "eepromWrites (out (mainLoop sy i s)) = eepromWrites (out s) \<and>
        haveToSaveData (mainLoop sy i s) = 0"
  proof (cases "faultCode (filteredTemp i s) = 0")
    case True
    from c Cons.prems(1) show ?thesis
      unfolding mainLoop_pending [OF True] by auto
  next
    case False
    with Cons.prems(1) show ?thesis by (simp add: mainLoop_fault_pending)
  qed
  with Cons.IH [OF _ n] show ?case by simp
qed

lemma step_range:
  fixes h :: u16
  assumes "50 \<le> h" "h \<le> 450"
  shows "50 \<le> stepHeat btn h" "stepHeat btn h \<le> 450"
proof -
  from assms have b: "50 \<le> unat h" "unat h \<le> 450" by (simp_all add: word_le_nat_alt)
  then have u: "unat (h + 1) = unat h + 1" by (simp add: unat_word_ariths)
  from b assms have d: "unat (h - 1) = unat h - 1" by (simp add: unat_sub word_le_nat_alt)
  have e: "h = 450 \<longleftrightarrow> unat h = 450" "h = 50 \<longleftrightarrow> unat h = 50"
    by (simp_all add: word_unat_eq_iff)
  show "50 \<le> stepHeat btn h" "stepHeat btn h \<le> 450"
    using b u d e by (auto simp add: stepHeat_def word_le_nat_alt)
qed

lemma press_cycle:
  assumes ff: "faultFree sy (i0 # as @ [ik]) s"
    and held: "\<forall>i\<in>set (i0 # as @ [ik]). onlyHeld btn i"
    and bt: "buttonTimer s = 0"
    and l: "l = (if longPressTimer s = 0 then millis i0 else longPressTimer s)"
    and t0: "millis i0 \<noteq> 0" "millis i0 - l \<le> LONG_PRESS"
    and wait: "\<forall>i\<in>set as. millis i - l \<le> LONG_PRESS \<and> millis i - millis i0 \<le> SHORT_PRESS"
    and fire: "millis ik - l \<le> LONG_PRESS" "millis ik - millis i0 > SHORT_PRESS"
    and rng: "50 \<le> heatPoint (eepromData s)" "heatPoint (eepromData s) \<le> 450"
    and nb: "btn = PB7 \<or> btn = PB6"
  shows "buttonTimer (run sy (i0 # as @ [ik]) s) = 0 \<and>
         longPressTimer (run sy (i0 # as @ [ik]) s) = l \<and>
         eepromData (run sy (i0 # as @ [ik]) s) =
           (eepromData s)\<lparr>heatPoint := stepHeat btn (heatPoint (eepromData s))\<rparr> \<and>
         beeps (out (run sy (i0 # as @ [ik]) s)) = beeps (out s) + 1 \<and>
         haveToSaveData (run sy (i0 # as @ [ik]) s) = millis ik"
proof -
  let ?s1 = "mainLoop sy i0 s"
  let ?s2 = "run sy as ?s1"
  from ff have nf0: "faultCode (filteredTemp i0 s) = 0"
    and ffa: "faultFree sy as ?s1"
    and nfk: "faultCode (filteredTemp ik ?s2) = 0"
    by (simp_all add: faultFree_append)
  from held have p0: "onlyHeld btn i0"
    and pk: "onlyHeld btn ik"
    and pa: "\<forall>i\<in>set as. onlyHeld btn i"
    by simp_all
  have l0: "l \<noteq> 0" using l t0(1) by auto
  have bt1: "millis i0 = (if buttonTimer s = 0 then millis i0 else buttonTimer s)"
    using bt by simp
  have lp1: "l = (if longPressTimer s = 0 then millis i0 else longPressTimer s)"
    by (fact l)
  have z: "\<not> SHORT_PRESS < 0" by simp
  note st0 = held_step [OF nf0 p0 nb rng bt1 lp1 t0(2), of sy]
  have 1: "buttonTimer ?s1 = millis i0" "longPressTimer ?s1 = l"
    "eepromData ?s1 = eepromData s" "beeps (out ?s1) = beeps (out s)"
    using st0 z by simp_all
  have rng1: "50 \<le> heatPoint (eepromData ?s1)" "heatPoint (eepromData ?s1) \<le> 450"
    using rng 1(3) by simp_all
  have q: "\<forall>i\<in>set as. onlyHeld btn i \<and>
           millis i - l \<le> LONG_PRESS \<and> millis i - millis i0 \<le> SHORT_PRESS"
    using pa wait by simp
  from hold_quiet [OF ffa q 1(1) t0(1) 1(2) l0 rng1 nb]
  have 2: "buttonTimer ?s2 = millis i0" "longPressTimer ?s2 = l"
    "eepromData ?s2 = eepromData s" "beeps (out ?s2) = beeps (out s)"
    using 1 by simp_all
  have rng2: "50 \<le> heatPoint (eepromData ?s2)" "heatPoint (eepromData ?s2) \<le> 450"
    using rng 2(3) by simp_all
  have bt2: "millis i0 = (if buttonTimer ?s2 = 0 then millis ik else buttonTimer ?s2)"
    using 2(1) t0(1) by simp
  have lp2: "l = (if longPressTimer ?s2 = 0 then millis i0 else longPressTimer ?s2)"
    using 2(2) l0 by simp
  note stk = held_step [OF nfk pk nb rng2 bt2 lp2 fire(1), of sy]
  have r: "run sy (i0 # as @ [ik]) s = mainLoop sy ik ?s2"
    by (simp add: run_append)
  show ?thesis
    unfolding r using stk fire(2) 2 by simp
qed

lemma press_tail:
  assumes ff: "faultFree sy (bs @ [ir]) s"
    and held: "\<forall>i\<in>set bs. onlyHeld btn i"
    and rel: "getPin ir PB7 \<noteq> LOW" "getPin ir PB6 \<noteq> LOW"
    and bt: "buttonTimer s = 0" and lp: "longPressTimer s = l" "l \<noteq> 0"
    and p: "haveToSaveData s = p"
    and wait: "\<forall>i\<in>set bs. millis i \<noteq> 0 \<and> millis i - l \<le> LONG_PRESS \<and>
               millis i - millis (hd bs) \<le> SHORT_PRESS \<and>
               millis i - p \<le> EEPROM_SAVE_TIMEOUT"
    and pr: "millis ir - p \<le> EEPROM_SAVE_TIMEOUT"
    and rng: "50 \<le> heatPoint (eepromData s)" "heatPoint (eepromData s) \<le> 450"
    and nb: "btn = PB7 \<or> btn = PB6"
  shows "eepromData (run sy (bs @ [ir]) s) = eepromData s \<and>
         beeps (out (run sy (bs @ [ir]) s)) = beeps (out s) \<and>
         haveToSaveData (run sy (bs @ [ir]) s) = p \<and>
         buttonTimer (run sy (bs @ [ir]) s) = 0 \<and>
         longPressTimer (run sy (bs @ [ir]) s) = 0"
proof -
  let ?s2 = "run sy bs s"
  from ff have ffb: "faultFree sy bs s" and nfr: "faultCode (filteredTemp ir ?s2) = 0"
    by (simp_all add: faultFree_append)
  have mid: "eepromData ?s2 = eepromData s \<and> beeps (out ?s2) = beeps (out s) \<and>
             haveToSaveData ?s2 = p"
  proof (cases bs)
    case Nil
    with p show ?thesis by simp
  next
    case (Cons b1 bs')
    let ?s1 = "mainLoop sy b1 s"
    from ffb Cons have nf1: "faultCode (filteredTemp b1 s) = 0"
      and ff': "faultFree sy bs' ?s1" by simp_all
    from held Cons have p1: "onlyHeld btn b1"
      and p': "\<forall>i\<in>set bs'. onlyHeld btn i" by simp_all
    from wait Cons have w1: "millis b1 \<noteq> 0" "millis b1 - l \<le> LONG_PRESS"
      "\<not> millis b1 - p > EEPROM_SAVE_TIMEOUT"
      and w': "\<forall>i\<in>set bs'. millis i - l \<le> LONG_PRESS \<and> millis i - millis b1 \<le> SHORT_PRESS"
      and wp: "\<forall>i\<in>set bs'. millis i - p \<le> EEPROM_SAVE_TIMEOUT"
      by (simp_all add: not_less)
    have bt1: "millis b1 = (if buttonTimer s = 0 then millis b1 else buttonTimer s)"
      using bt by simp
    have lp1: "l = (if longPressTimer s = 0 then millis b1 else longPressTimer s)"
      using lp by simp
    have z: "\<not> SHORT_PRESS < 0" by simp
    note st = held_step [OF nf1 p1 nb rng bt1 lp1 w1(2), of sy]
    have 1: "buttonTimer ?s1 = millis b1" "longPressTimer ?s1 = l"
      "eepromData ?s1 = eepromData s" "beeps (out ?s1) = beeps (out s)"
      "haveToSaveData ?s1 = p"
      using st z w1(3) p by simp_all
    have rng1: "50 \<le> heatPoint (eepromData ?s1)" "heatPoint (eepromData ?s1) \<le> 450"
      using rng 1(3) by simp_all
    have q: "\<forall>i\<in>set bs'. onlyHeld btn i \<and>
           millis i - l \<le> LONG_PRESS \<and> millis i - millis b1 \<le> SHORT_PRESS"
      using p' w' by simp
    from hold_quiet [OF ff' q 1(1) w1(1) 1(2) lp(2) rng1 nb] wp 1
    show ?thesis by (simp add: Cons)
  qed
  then have rng2: "50 \<le> heatPoint (eepromData ?s2)" "heatPoint (eepromData ?s2) \<le> 450"
    using rng by simp_all
  note st = released_step [OF nfr rel rng2, of sy]
  have np: "\<not> millis ir - p > EEPROM_SAVE_TIMEOUT" using pr by (simp add: not_less)
  show ?thesis
    using st mid np by (simp add: run_append)
qed

lemma word_window:
  fixes k a d :: nat
  assumes "a \<le> k" "k \<le> a + d" "a + d < 2 ^ 32"
  shows "(of_nat k :: u32) - of_nat a \<le> of_nat d"
proof -
  have uk: "unat (of_nat k :: u32) = k" and ua: "unat (of_nat a :: u32) = a"
    and ud: "unat (of_nat d :: u32) = d"
    using assms by (simp_all add: unat_of_nat)
  have le: "(of_nat a :: u32) \<le> of_nat k"
    using assms(1) by (simp only: word_le_nat_alt uk ua)
  have "unat ((of_nat k :: u32) - of_nat a) = k - a"
    by (simp only: unat_sub [OF le] uk ua)
  with ud assms show ?thesis by (simp add: word_le_nat_alt)
qed

lemma held_window:
  assumes "a \<le> lo" "hi \<le> a + d + 1" "a + d < 2 ^ 32"
  shows "\<forall>i\<in>set (map held_plus [lo..<hi]). millis i - of_nat a \<le> of_nat d"
  using assms by (auto simp add: held_plus_def intro!: word_window)

lemma held_pins:
  "\<forall>i\<in>set (map held_plus ks). onlyHeld PB7 i"
  by (simp add: held_plus_def onlyHeld_def LOW_def)

lemma held_nonzero:
  assumes "0 < lo" "hi \<le> 2 ^ 32"
  shows "\<forall>i\<in>set (map held_plus [lo..<hi]). millis i \<noteq> 0"
proof -
  have "(of_nat k :: u32) \<noteq> 0" if "lo \<le> k" "k < hi" for k
  proof -
    from that assms have "unat (of_nat k :: u32) = k" by (simp add: unat_of_nat)
    with that assms show ?thesis by (metis not_less unat_0 le_zero_eq)
  qed
  then show ?thesis by (auto simp add: held_plus_def)
qed

lemma held_adc:
  "\<forall>i\<in>set (map held_plus ks @ [released_at k]). 40 \<le> adcCH0 i \<and> adcCH0 i \<le> 1000"
  by (simp add: held_plus_def released_at_def)

lemma held_simps [simp]:
  "millis (held_plus k) = of_nat k" "millis (released_at k) = of_nat k"
  "pinPB7 (held_plus k) = 0" "pinPB6 (held_plus k) = 1"
  "pinPB7 (released_at k) = 1" "pinPB6 (released_at k) = 1"
  "adcCH0 (held_plus k) = 400" "adcCH0 (released_at k) = 400"
  "millis (held_minus k) = of_nat k" "adcCH0 (held_minus k) = 400"
  "pinPB7 (held_minus k) = 1" "pinPB6 (held_minus k) = 0"
  by (simp_all add: held_plus_def held_minus_def released_at_def)

lemma upt_split: "a \<le> b \<Longrightarrow> b \<le> c \<Longrightarrow> [a..<c] = [a..<b] @ [b..<c]"
  using upt_add_eq_append [of a b "c - b"] by simp

lemma press_1500_split:
  "map held_plus [1000..<2500] @ [released_at 2500] =
     (held_plus 1000 # map held_plus [1001..<1701] @ [held_plus 1701]) @
     (held_plus 1702 # map held_plus [1703..<2403] @ [held_plus 2403]) @
     (map held_plus [2404..<2500] @ [released_at 2500])"
proof -
  have s: "[1000..<2500] = [1000..<1001] @ [1001..<1701] @ [1701..<1702] @ [1702..<1703] @
      [1703..<2403] @ [2403..<2404] @ [2404..<2500]"
    by (simp only: upt_split [of 1000 1001 2500] upt_split [of 1001 1701 2500]
        upt_split [of 1701 1702 2500] upt_split [of 1702 1703 2500]
        upt_split [of 1703 2403 2500] upt_split [of 2403 2404 2500])
  have u: "[1000..<1001] = [1000]" "[1701..<1702] = [1701]" "[1702..<1703] = [1702]"
    "[2403..<2404] = [2403]"
    by simp_all
  show ?thesis unfolding s u by (simp del: upt_rec_numeral)
qed


lemma released_pins:
  "\<forall>i\<in>set (map released_at ks). getPin i PB7 \<noteq> LOW \<and> getPin i PB6 \<noteq> LOW"
  by (simp add: LOW_def)

lemma noArmingEdit_released: "noArmingEdit sy (map released_at ks) s"
  by (induction ks arbitrary: s) (simp_all add: editApplied_def LOW_def)

subsection \<open>Edits of a run\<close>

lemma lastEdit_append:
  "lastEdit sy (xs @ ys) s e = lastEdit sy ys (run sy xs s) (lastEdit sy xs s e)"
  by (induction xs arbitrary: s e) simp_all

lemma editsClose_append:
  "editsClose sy (xs @ ys) s e \<longleftrightarrow>
     editsClose sy xs s e \<and> editsClose sy ys (run sy xs s) (lastEdit sy xs s e)"
  by (induction xs arbitrary: s e) simp_all

lemma pending_tracks:
  assumes "editsClose sy ins s e"
    and "haveToSaveData s = (case e of None \<Rightarrow> 0 | Some t \<Rightarrow> t)"
  shows "haveToSaveData (run sy ins s) = (case lastEdit sy ins s e of None \<Rightarrow> 0 | Some t \<Rightarrow> t) \<and>
         eepromWrites (out (run sy ins s)) = eepromWrites (out s)"
  using assms
proof (induction ins arbitrary: s e)
  case Nil
  then show ?case by simp
next
  case (Cons i ins)
  let ?e = "if editApplied i s then Some (millis i) else e"
  from Cons.prems have c: "case e of None \<Rightarrow> True | Some t \<Rightarrow> millis i - t \<le> EEPROM_SAVE_TIMEOUT"
    and n: "editsClose sy ins (mainLoop sy i s) ?e" by simp_all
  from c Cons.prems(2)
  have nd: "\<not> (haveToSaveData s \<noteq> 0 \<and> millis i - haveToSaveData s > EEPROM_SAVE_TIMEOUT)"
    by (cases e) (simp_all add: not_less)
  have st: "haveToSaveData (mainLoop sy i s) = (case ?e of None \<Rightarrow> 0 | Some t \<Rightarrow> t) \<and>
        eepromWrites (out (mainLoop sy i s)) = eepromWrites (out s)"
  proof (cases "faultCode (filteredTemp i s) = 0")
    case True
    from nd Cons.prems(2) show ?thesis
      unfolding mainLoop_pending [OF True] by auto
  next
    case False
    then have "\<not> editApplied i s" by (simp add: editApplied_def)
    with False Cons.prems(2) show ?thesis by (simp add: mainLoop_fault_pending)
  qed
  from Cons.IH [OF n] st show ?case by simp
qed

lemma edited_range:
  assumes "e \<noteq> None \<longrightarrow> 50 \<le> heatPoint (eepromData s) \<and> heatPoint (eepromData s) \<le> 450"
    and "lastEdit sy ins s e \<noteq> None"
  shows "50 \<le> heatPoint (eepromData (run sy ins s)) \<and>
         heatPoint (eepromData (run sy ins s)) \<le> 450"
  using assms
proof (induction ins arbitrary: s e)
  case Nil
  then show ?case by simp
next
  case (Cons i ins)
  let ?e = "if editApplied i s then Some (millis i) else e"
  have r: "?e \<noteq> None \<longrightarrow> 50 \<le> heatPoint (eepromData (mainLoop sy i s)) \<and>
      heatPoint (eepromData (mainLoop sy i s)) \<le> 450"
  proof (cases "faultCode (filteredTemp i s) = 0")
    case True
    then show ?thesis by (simp add: mainLoop_range)
  next
    case False
    then have "\<not> editApplied i s" by (simp add: editApplied_def)
    with False Cons.prems(1) show ?thesis by (simp add: mainLoop_fault_pending)
  qed
  from Cons.prems(2) have "lastEdit sy ins (mainLoop sy i s) ?e \<noteq> None" by simp
  from Cons.IH [OF r this] show ?case by simp
qed

lemma held_applied:
  assumes nf: "faultCode (filteredTemp i s) = 0"
    and pins: "onlyHeld btn i" "btn = PB7 \<or> btn = PB6"
    and bt1: "bt1 = (if buttonTimer s = 0 then millis i else buttonTimer s)"
    and lp1: "lp1 = (if longPressTimer s = 0 then bt1 else longPressTimer s)"
    and nolong: "millis i - lp1 \<le> LONG_PRESS"
  shows "editApplied i s \<longleftrightarrow> millis i - bt1 > SHORT_PRESS"
proof -
  have nl: "longPressTimer s \<noteq> 0 \<Longrightarrow> \<not> millis i - longPressTimer s > LONG_PRESS"
    "longPressTimer s = 0 \<Longrightarrow> buttonTimer s \<noteq> 0 \<Longrightarrow>
       \<not> millis i - buttonTimer s > LONG_PRESS"
    "\<not> LONG_PRESS < 0"
    using nolong unfolding lp1 bt1 by (simp_all add: not_less)
  have pf: "pressFires (millis i) s = (millis i - bt1 > SHORT_PRESS)"
    by (simp add: pressFires_def bt1 lp1 Let_def nl)
  from pins(2) show ?thesis
  proof
    assume b: "btn = PB7"
    with pins(1) have "getPin i PB7 = LOW" "getPin i PB6 \<noteq> LOW"
      by (simp_all add: onlyHeld_def)
    then show ?thesis unfolding editApplied_def using nf pf by simp
  next
    assume b: "btn = PB6"
    with pins(1) have p: "getPin i PB6 = LOW" "getPin i PB7 \<noteq> LOW"
      by (simp_all add: onlyHeld_def)
    have "snd (checkButton i PB7 1 (millis i) s) = s"
      using p(2) by (simp add: checkButton_released)
    then show ?thesis unfolding editApplied_def using nf pf p by simp
  qed
qed

lemma hold_edits:
  assumes "faultFree sy ins s"
    and "\<forall>i\<in>set ins. onlyHeld btn i \<and>
           millis i - l \<le> LONG_PRESS \<and> millis i - b \<le> SHORT_PRESS"
    and "buttonTimer s = b" "b \<noteq> 0" "longPressTimer s = l" "l \<noteq> 0"
    and "50 \<le> heatPoint (eepromData s)" "heatPoint (eepromData s) \<le> 450"
    and "btn = PB7 \<or> btn = PB6"
  shows "lastEdit sy ins s e = e \<and>
         (editsClose sy ins s e \<longleftrightarrow>
            (\<forall>i\<in>set ins. case e of None \<Rightarrow> True | Some t \<Rightarrow> millis i - t \<le> EEPROM_SAVE_TIMEOUT))"
  using assms
proof (induction ins arbitrary: s)
  case Nil
  then show ?case by simp
next
  case (Cons i ins)
  from Cons.prems have nf: "faultCode (filteredTemp i s) = 0"
    and ff: "faultFree sy ins (mainLoop sy i s)" by simp_all
  from Cons.prems have pins: "onlyHeld btn i"
    and w: "millis i - l \<le> LONG_PRESS" "\<not> millis i - b > SHORT_PRESS"
    by (simp_all add: not_less)
  have bt1: "b = (if buttonTimer s = 0 then millis i else buttonTimer s)"
    using Cons.prems by simp
  have lp1: "l = (if longPressTimer s = 0 then b else longPressTimer s)"
    using Cons.prems by simp
  note st = held_step [OF nf pins Cons.prems(9) Cons.prems(7,8) bt1 lp1 w(1), of sy]
  have na: "\<not> editApplied i s"
    using held_applied [OF nf pins Cons.prems(9) bt1 lp1 w(1)] w(2) by simp
  have 1: "buttonTimer (mainLoop sy i s) = b" "longPressTimer (mainLoop sy i s) = l"
    "eepromData (mainLoop sy i s) = eepromData s"
    using st w(2) by simp_all
  have ih: "lastEdit sy ins (mainLoop sy i s) e = e \<and>
         (editsClose sy ins (mainLoop sy i s) e \<longleftrightarrow>
            (\<forall>i\<in>set ins. case e of None \<Rightarrow> True | Some t \<Rightarrow> millis i - t \<le> EEPROM_SAVE_TIMEOUT))"
    using Cons.prems 1 by (intro Cons.IH ff) simp_all
  show ?case using ih na by simp
qed

lemma press_cycle_edits:
  assumes ff: "faultFree sy (i0 # as @ [ik]) s"
    and held: "\<forall>i\<in>set (i0 # as @ [ik]). onlyHeld btn i"
    and bt: "buttonTimer s = 0"
    and l: "l = (if longPressTimer s = 0 then millis i0 else longPressTimer s)"
    and t0: "millis i0 \<noteq> 0" "millis i0 - l \<le> LONG_PRESS"
    and wait: "\<forall>i\<in>set as. millis i - l \<le> LONG_PRESS \<and> millis i - millis i0 \<le> SHORT_PRESS"
    and fire: "millis ik - l \<le> LONG_PRESS" "millis ik - millis i0 > SHORT_PRESS"
    and rng: "50 \<le> heatPoint (eepromData s)" "heatPoint (eepromData s) \<le> 450"
    and nb: "btn = PB7 \<or> btn = PB6"
  shows "lastEdit sy (i0 # as @ [ik]) s e = Some (millis ik) \<and>
         (editsClose sy (i0 # as @ [ik]) s e \<longleftrightarrow>
            (\<forall>i\<in>set (i0 # as @ [ik]).
               case e of None \<Rightarrow> True | Some t \<Rightarrow> millis i - t \<le> EEPROM_SAVE_TIMEOUT))"
proof -
  let ?s1 = "mainLoop sy i0 s"
  let ?s2 = "run sy as ?s1"
  from ff have nf0: "faultCode (filteredTemp i0 s) = 0"
    and ffa: "faultFree sy as ?s1"
    and nfk: "faultCode (filteredTemp ik ?s2) = 0"
    by (simp_all add: faultFree_append)
  from held have p0: "onlyHeld btn i0"
    and pk: "onlyHeld btn ik"
    and pa: "\<forall>i\<in>set as. onlyHeld btn i"
    by simp_all
  have l0: "l \<noteq> 0" using l t0(1) by auto
  have bt1: "millis i0 = (if buttonTimer s = 0 then millis i0 else buttonTimer s)"
    using bt by simp
  have lp1: "l = (if longPressTimer s = 0 then millis i0 else longPressTimer s)"
    by (fact l)
  have z: "\<not> SHORT_PRESS < 0" by simp
  note st0 = held_step [OF nf0 p0 nb rng bt1 lp1 t0(2), of sy]
  have na0: "\<not> editApplied i0 s"
    using held_applied [OF nf0 p0 nb bt1 lp1 t0(2)] z by simp
  have 1: "buttonTimer ?s1 = millis i0" "longPressTimer ?s1 = l"
    "eepromData ?s1 = eepromData s"
    using st0 z by simp_all
  have rng1: "50 \<le> heatPoint (eepromData ?s1)" "heatPoint (eepromData ?s1) \<le> 450"
    using rng 1(3) by simp_all
  have q: "\<forall>i\<in>set as. onlyHeld btn i \<and>
           millis i - l \<le> LONG_PRESS \<and> millis i - millis i0 \<le> SHORT_PRESS"
    using pa wait by simp
  from hold_quiet [OF ffa q 1(1) t0(1) 1(2) l0 rng1 nb]
  have 2: "buttonTimer ?s2 = millis i0" "longPressTimer ?s2 = l"
    by simp_all
  note he = hold_edits [OF ffa q 1(1) t0(1) 1(2) l0 rng1 nb, of e]
  have bt2: "millis i0 = (if buttonTimer ?s2 = 0 then millis ik else buttonTimer ?s2)"
    using 2(1) t0(1) by simp
  have lp2: "l = (if longPressTimer ?s2 = 0 then millis i0 else longPressTimer ?s2)"
    using 2(2) l0 by simp
  have ak: "editApplied ik ?s2"
    using held_applied [OF nfk pk nb bt2 lp2 fire(1)] fire(2) by simp
  show ?thesis
    using na0 he ak by (auto simp add: lastEdit_append editsClose_append)
qed

lemma released_window:
  assumes "a \<le> lo" "hi \<le> a + d + 1" "a + d < 2 ^ 32"
  shows "\<forall>i\<in>set (map released_at [lo..<hi]). millis i - of_nat a \<le> of_nat d"
  using assms by (auto simp add: released_at_def intro!: word_window)

lemma press_twice_pins:
  "\<forall>i\<in>set (held_plus a # map held_plus ks @ [held_plus b]). onlyHeld PB7 i"
  by (simp add: onlyHeld_def LOW_def)

subsection \<open>Short press\<close>

text \<open>
  C7 (as amended). The timers are idle and the setpoint is within \<open>[50, 450]\<close>.  One
  button \<open>btn\<close>, "increase" or "decrease", then reads as pressed, with the other button
  released, in a run of iterations that ends with one iteration in which both buttons are
  released; no iteration of the run detects a sensor fault.  The first iteration reads a
  clock \<open>t1\<close> other than 0.  Some iteration \<open>ik\<close> of the hold reads a clock other than 0
  that is more than 700 ms and at most 1800 ms after \<open>t1\<close>; the iterations before it
  come at most 700 ms after \<open>t1\<close>; the iterations of the hold after it read a clock other
  than 0, at most 700 ms after the first of them, at most 1800 ms after \<open>t1\<close> and at
  most 2000 ms after \<open>ik\<close>; the releasing iteration comes at most 2000 ms after \<open>ik\<close>
  (all differences modulo \<open>2^32\<close>).  Then, over the whole press and the release, the
  setpoint moves by exactly one step of that button (staying at the bound 450 or 50 if it
  was there), exactly one short beep sounds, and the pending-save timestamp is the clock
  reading of \<open>ik\<close>, so one save is pending.  A hold of 800 ms sampled every millisecond
  is of this kind.
\<close>

theorem short_press_once:
  assumes btn: "btn = PB7 \<or> btn = PB6"
    and idle: "buttonTimer s = 0" "longPressTimer s = 0"
    and rng: "50 \<le> heatPoint (eepromData s)" "heatPoint (eepromData s) \<le> 450"
    and ff: "faultFree sy ((i1 # as @ [ik]) @ bs @ [ir]) s"
    and held: "\<forall>i\<in>set (i1 # as @ [ik] @ bs). onlyHeld btn i"
    and rel: "getPin ir PB7 \<noteq> LOW" "getPin ir PB6 \<noteq> LOW"
    and t1: "millis i1 \<noteq> 0"
    and wait: "\<forall>i\<in>set as. millis i - millis i1 \<le> SHORT_PRESS"
    and fire: "SHORT_PRESS < millis ik - millis i1" "millis ik - millis i1 \<le> LONG_PRESS"
      "millis ik \<noteq> 0"
    and after: "\<forall>i\<in>set bs. millis i \<noteq> 0 \<and> millis i - millis i1 \<le> LONG_PRESS \<and>
                 millis i - millis (hd bs) \<le> SHORT_PRESS \<and>
                 millis i - millis ik \<le> EEPROM_SAVE_TIMEOUT"
    and last: "millis ir - millis ik \<le> EEPROM_SAVE_TIMEOUT"
  shows "heatPoint (eepromData (run sy ((i1 # as @ [ik]) @ bs @ [ir]) s)) =
           stepHeat btn (heatPoint (eepromData s)) \<and>
         beeps (out (run sy ((i1 # as @ [ik]) @ bs @ [ir]) s)) = beeps (out s) + 1 \<and>
         haveToSaveData (run sy ((i1 # as @ [ik]) @ bs @ [ir]) s) = millis ik \<and>
         haveToSaveData (run sy ((i1 # as @ [ik]) @ bs @ [ir]) s) \<noteq> 0"
proof -
  let ?c = "i1 # as @ [ik]"
  let ?s1 = "run sy ?c s"
  from ff have ff1: "faultFree sy ?c s" and ff2: "faultFree sy (bs @ [ir]) ?s1"
    by (simp_all only: faultFree_append)
  from held have h1: "\<forall>i\<in>set ?c. onlyHeld btn i"
    and h2: "\<forall>i\<in>set bs. onlyHeld btn i"
    by simp_all
  have l: "millis i1 = (if longPressTimer s = 0 then millis i1 else longPressTimer s)"
    using idle by simp
  have sl: "SHORT_PRESS \<le> LONG_PRESS" by (simp add: SHORT_PRESS_def LONG_PRESS_def)
  have w0: "millis i1 - millis i1 \<le> LONG_PRESS" by simp
  have w: "\<forall>i\<in>set as. millis i - millis i1 \<le> LONG_PRESS \<and> millis i - millis i1 \<le> SHORT_PRESS"
    using wait sl by (auto intro: order_trans)
  from press_cycle [OF ff1 h1 idle(1) l t1 w0 w fire(2) fire(1) rng btn]
  have c: "buttonTimer ?s1 = 0" "longPressTimer ?s1 = millis i1"
    "eepromData ?s1 = (eepromData s)\<lparr>heatPoint := stepHeat btn (heatPoint (eepromData s))\<rparr>"
    "beeps (out ?s1) = beeps (out s) + 1" "haveToSaveData ?s1 = millis ik"
    by simp_all
  have rng1: "50 \<le> heatPoint (eepromData ?s1)" "heatPoint (eepromData ?s1) \<le> 450"
    unfolding c(3) using step_range [OF rng, of btn] by simp_all
  from press_tail [OF ff2 h2 rel c(1) c(2) t1 c(5) after last rng1 btn]
  have "eepromData (run sy (bs @ [ir]) ?s1) = eepromData ?s1 \<and>
        beeps (out (run sy (bs @ [ir]) ?s1)) = beeps (out ?s1) \<and>
        haveToSaveData (run sy (bs @ [ir]) ?s1) = millis ik"
    by simp
  then show ?thesis
    unfolding run_append c using fire(3) by simp
qed

theorem short_press_once_witness:
  "heatPoint (eepromData (run example_symbols
      ((held_plus 1000 # map held_plus [1001..<1701] @ [held_plus 1701]) @
        map held_plus [1702..<1800] @ [released_at 1800])
      (setup_main 0 factory_record))) = 271 \<and>
   beeps (out (run example_symbols
      ((held_plus 1000 # map held_plus [1001..<1701] @ [held_plus 1701]) @
        map held_plus [1702..<1800] @ [released_at 1800])
      (setup_main 0 factory_record))) = 1 \<and>
   haveToSaveData (run example_symbols
      ((held_plus 1000 # map held_plus [1001..<1701] @ [held_plus 1701]) @
        map held_plus [1702..<1800] @ [released_at 1800])
      (setup_main 0 factory_record)) = 1701 \<and>
   heatPoint (eepromData (run example_symbols
      [held_minus 1000, held_minus 1701, released_at 1702] (setup_main 0 factory_record))) = 269 \<and>
   beeps (out (run example_symbols
      [held_minus 1000, held_minus 1701, released_at 1702] (setup_main 0 factory_record))) = 1"
proof -
  let ?s0 = "setup_main 0 factory_record"
  have btn: "PB7 = PB7 \<or> PB7 = PB6" by simp
  have idle: "buttonTimer ?s0 = 0" "longPressTimer ?s0 = 0"
    and rng: "50 \<le> heatPoint (eepromData ?s0)" "heatPoint (eepromData ?s0) \<le> 450"
    by (simp_all add: setup_main_factory)
  have ff: "faultFree example_symbols
      ((held_plus 1000 # map held_plus [1001..<1701] @ [held_plus 1701]) @
        map held_plus [1702..<1800] @ [released_at 1800]) ?s0"
    by (rule faultFree_steady) (auto simp add: setup_main_factory simp del: upt_rec_numeral)
  have held: "\<forall>i\<in>set (held_plus 1000 # map held_plus [1001..<1701] @ [held_plus 1701] @
      map held_plus [1702..<1800]). onlyHeld PB7 i"
    by (auto simp add: onlyHeld_def LOW_def simp del: upt_rec_numeral)
  have rel: "getPin (released_at 1800) PB7 \<noteq> LOW" "getPin (released_at 1800) PB6 \<noteq> LOW"
    by (simp_all add: LOW_def)
  have t1: "millis (held_plus 1000) \<noteq> 0" by simp
  have wait: "\<forall>i\<in>set (map held_plus [1001..<1701]).
      millis i - millis (held_plus 1000) \<le> SHORT_PRESS"
    using held_window [of 1000 1001 1701 700]
    by (auto simp del: upt_rec_numeral simp add: SHORT_PRESS_def)
  have fire: "SHORT_PRESS < millis (held_plus 1701) - millis (held_plus 1000)"
    "millis (held_plus 1701) - millis (held_plus 1000) \<le> LONG_PRESS"
    "millis (held_plus 1701) \<noteq> 0"
    by (simp_all add: LONG_PRESS_def SHORT_PRESS_def)
  have hd3: "hd (map held_plus [1702..<1800]) = held_plus 1702"
    by (simp add: hd_map del: upt_rec_numeral)
  have after: "\<forall>i\<in>set (map held_plus [1702..<1800]). millis i \<noteq> 0 \<and>
      millis i - millis (held_plus 1000) \<le> LONG_PRESS \<and>
      millis i - millis (hd (map held_plus [1702..<1800])) \<le> SHORT_PRESS \<and>
      millis i - millis (held_plus 1701) \<le> EEPROM_SAVE_TIMEOUT"
    unfolding hd3
    using held_window [of 1000 1702 1800 1800] held_window [of 1702 1702 1800 700]
      held_window [of 1701 1702 1800 2000] held_nonzero [of 1702 1800]
    by (auto simp del: upt_rec_numeral
        simp add: LONG_PRESS_def SHORT_PRESS_def EEPROM_SAVE_TIMEOUT_def)
  have last: "millis (released_at 1800) - millis (held_plus 1701) \<le> EEPROM_SAVE_TIMEOUT"
    by (simp add: EEPROM_SAVE_TIMEOUT_def)
  have btn': "PB6 = PB7 \<or> PB6 = PB6" by simp
  have ff': "faultFree example_symbols
      ((held_minus 1000 # [] @ [held_minus 1701]) @ [] @ [released_at 1702]) ?s0"
    by (rule faultFree_steady) (simp_all add: setup_main_factory)
  have held': "\<forall>i\<in>set (held_minus 1000 # [] @ [held_minus 1701] @ []). onlyHeld PB6 i"
    by (simp add: onlyHeld_def LOW_def)
  have rel': "getPin (released_at 1702) PB7 \<noteq> LOW" "getPin (released_at 1702) PB6 \<noteq> LOW"
    by (simp_all add: LOW_def)
  have t1': "millis (held_minus 1000) \<noteq> 0" by simp
  have wait': "\<forall>i\<in>set []. millis i - millis (held_minus 1000) \<le> SHORT_PRESS" by simp
  have fire': "SHORT_PRESS < millis (held_minus 1701) - millis (held_minus 1000)"
    "millis (held_minus 1701) - millis (held_minus 1000) \<le> LONG_PRESS"
    "millis (held_minus 1701) \<noteq> 0"
    by (simp_all add: LONG_PRESS_def SHORT_PRESS_def)
  have after': "\<forall>i\<in>set []. millis i \<noteq> 0 \<and>
      millis i - millis (held_minus 1000) \<le> LONG_PRESS \<and>
      millis i - millis (hd []) \<le> SHORT_PRESS \<and>
      millis i - millis (held_minus 1701) \<le> EEPROM_SAVE_TIMEOUT"
    by simp
  have last': "millis (released_at 1702) - millis (held_minus 1701) \<le> EEPROM_SAVE_TIMEOUT"
    by (simp add: EEPROM_SAVE_TIMEOUT_def)
  have minus: "heatPoint (eepromData (run example_symbols
        [held_minus 1000, held_minus 1701, released_at 1702] ?s0)) = 269 \<and>
      beeps (out (run example_symbols
        [held_minus 1000, held_minus 1701, released_at 1702] ?s0)) = 1"
    using short_press_once [OF btn' idle rng ff' held' rel' t1' wait' fire' after' last']
    by (simp add: setup_main_factory stepHeat_def)
  show ?thesis
    using short_press_once [OF btn idle rng ff held rel t1 wait fire after last] minus
    by (simp add: setup_main_factory stepHeat_def del: upt_rec_numeral run.simps)
qed

text \<open>
  C7 as stated fails for a longer hold: with one iteration per millisecond, a button held
  from 1000 ms to 2499 ms and released at 2500 ms (1500 ms, below the long-press
  threshold) steps the setpoint twice, at 1701 ms and again at 2403 ms, with two beeps.
\<close>

theorem short_press_twice_counterexample:
  "heatPoint (eepromData (run example_symbols
      (map held_plus [1000..<2500] @ [released_at 2500]) (setup_main 0 factory_record))) = 272 \<and>
   beeps (out (run example_symbols
      (map held_plus [1000..<2500] @ [released_at 2500]) (setup_main 0 factory_record))) = 2"
proof -
  let ?sy = example_symbols
  let ?s0 = "setup_main 0 factory_record"
  let ?c1 = "held_plus 1000 # map held_plus [1001..<1701] @ [held_plus 1701]"
  let ?c2 = "held_plus 1702 # map held_plus [1703..<2403] @ [held_plus 2403]"
  let ?tl = "map held_plus [2404..<2500] @ [released_at 2500]"
  let ?s1 = "run ?sy ?c1 ?s0"
  let ?s2 = "run ?sy ?c2 ?s1"
  have "faultFree ?sy (map held_plus [1000..<2500] @ [released_at 2500]) ?s0"
    by (rule faultFree_steady) (simp_all add: setup_main_factory held_adc del: upt_rec_numeral)
  then have ff1: "faultFree ?sy ?c1 ?s0" and ff2: "faultFree ?sy ?c2 ?s1"
    and ff3: "faultFree ?sy ?tl ?s2"
    unfolding press_1500_split by (simp_all only: faultFree_append run_append)
  have pins: "\<forall>i\<in>set (held_plus a # map held_plus ks @ [held_plus b]). onlyHeld PB7 i"
    for a b ks
    by (simp add: onlyHeld_def LOW_def)
  \<comment> \<open>first cycle: armed at 1000, fires at 1701\<close>
  have l1: "(1000 :: u32) = (if longPressTimer ?s0 = 0 then millis (held_plus 1000)
      else longPressTimer ?s0)"
    by (simp add: setup_main_factory)
  have w1: "\<forall>i\<in>set (map held_plus [1001..<1701]).
      millis i - 1000 \<le> LONG_PRESS \<and> millis i - millis (held_plus 1000) \<le> SHORT_PRESS"
    using held_window [of 1000 1001 1701 1800] held_window [of 1000 1001 1701 700]
    by (auto simp del: upt_rec_numeral simp add: LONG_PRESS_def SHORT_PRESS_def)
  have f1: "millis (held_plus 1701) - 1000 \<le> LONG_PRESS"
    "millis (held_plus 1701) - millis (held_plus 1000) > SHORT_PRESS"
    by (simp_all add: LONG_PRESS_def SHORT_PRESS_def)
  from press_cycle [OF ff1 pins _ l1 _ _ w1 f1]
  have c1: "buttonTimer ?s1 = 0" "longPressTimer ?s1 = 1000"
    "eepromData ?s1 = factory_record\<lparr>heatPoint := 271\<rparr>"
    "beeps (out ?s1) = 1" "haveToSaveData ?s1 = 1701"
    by (simp_all add: setup_main_factory LONG_PRESS_def stepHeat_def
        del: upt_rec_numeral run.simps)
  \<comment> \<open>second cycle: re-armed at 1702, fires at 2403\<close>
  have l2: "(1000 :: u32) = (if longPressTimer ?s1 = 0 then millis (held_plus 1702)
      else longPressTimer ?s1)"
    by (simp only: c1) simp
  have w2: "\<forall>i\<in>set (map held_plus [1703..<2403]).
      millis i - 1000 \<le> LONG_PRESS \<and> millis i - millis (held_plus 1702) \<le> SHORT_PRESS"
    using held_window [of 1000 1703 2403 1800] held_window [of 1702 1703 2403 700]
    by (auto simp del: upt_rec_numeral simp add: LONG_PRESS_def SHORT_PRESS_def)
  have f2: "millis (held_plus 2403) - 1000 \<le> LONG_PRESS"
    "millis (held_plus 2403) - millis (held_plus 1702) > SHORT_PRESS"
    by (simp_all add: LONG_PRESS_def SHORT_PRESS_def)
  have r1: "50 \<le> heatPoint (eepromData ?s1)" "heatPoint (eepromData ?s1) \<le> 450"
    by (simp_all only: c1) simp_all
  from press_cycle [OF ff2 pins c1(1) l2 _ _ w2 f2 r1]
  have c2: "buttonTimer ?s2 = 0" "longPressTimer ?s2 = 1000"
    "eepromData ?s2 = factory_record\<lparr>heatPoint := 272\<rparr>"
    "beeps (out ?s2) = 2" "haveToSaveData ?s2 = 2403"
    by (simp_all add: c1 LONG_PRESS_def stepHeat_def del: upt_rec_numeral run.simps)
  \<comment> \<open>the rest of the hold and the release\<close>
  have h3: "\<forall>i\<in>set (map held_plus [2404..<2500]). onlyHeld PB7 i"
    by (rule held_pins)
  have hd3: "hd (map held_plus [2404..<2500]) = held_plus 2404"
    by (simp add: hd_map del: upt_rec_numeral)
  have w3: "\<forall>i\<in>set (map held_plus [2404..<2500]). millis i \<noteq> 0 \<and>
      millis i - 1000 \<le> LONG_PRESS \<and>
      millis i - millis (hd (map held_plus [2404..<2500])) \<le> SHORT_PRESS \<and>
      millis i - 2403 \<le> EEPROM_SAVE_TIMEOUT"
    unfolding hd3
    using held_window [of 1000 2404 2500 1800] held_window [of 2404 2404 2500 700]
      held_window [of 2403 2404 2500 2000] held_nonzero [of 2404 2500]
    by (auto simp del: upt_rec_numeral
        simp add: LONG_PRESS_def SHORT_PRESS_def EEPROM_SAVE_TIMEOUT_def)
  have r2: "50 \<le> heatPoint (eepromData ?s2)" "heatPoint (eepromData ?s2) \<le> 450"
    by (simp_all only: c2) simp_all
  have rel: "getPin (released_at 2500) PB7 \<noteq> LOW" "getPin (released_at 2500) PB6 \<noteq> LOW"
    by (simp_all add: LOW_def)
  have pr: "millis (released_at 2500) - 2403 \<le> EEPROM_SAVE_TIMEOUT"
    by (simp add: EEPROM_SAVE_TIMEOUT_def)
  from press_tail [OF ff3 h3 rel c2(1) c2(2) _ c2(5) w3 pr r2]
  have c3: "eepromData (run ?sy ?tl ?s2) = factory_record\<lparr>heatPoint := 272\<rparr>"
    "beeps (out (run ?sy ?tl ?s2)) = 2"
    by (simp_all add: c2 del: upt_rec_numeral run.simps)
  have e: "run ?sy (map held_plus [1000..<2500] @ [released_at 2500]) ?s0 = run ?sy ?tl ?s2"
    unfolding press_1500_split
    by (simp only: run_append [of ?sy ?c1] run_append [of ?sy ?c2])
  show ?thesis
    unfolding e c3 by simp
qed

subsection \<open>Deferred save\<close>

text \<open>
  C8 (as amended). When a pending-save timestamp is set (is not 0) and more than 2000 ms
  have passed since it, \<open>checkPendingDataSave\<close> writes the whole record exactly once and
  clears the timestamp; otherwise it changes nothing.  Hence, for a run that starts with no
  save pending: if every iteration of the edit phase comes at most 2000 ms after the latest
  edit applied before it, if the last edit is applied at a clock reading \<open>t\<close> other than
  0, and if the buttons then stay released, with no sensor fault, until some iteration comes
  more than 2000 ms after \<open>t\<close>, then the whole run writes to the EEPROM exactly once, what
  it writes is the record as the edits left it, and no save is pending afterwards.
\<close>

theorem save_coalescing:
  "(haveToSaveData x \<noteq> 0 \<and> n - haveToSaveData x > EEPROM_SAVE_TIMEOUT \<longrightarrow>
      eepromWrites (out (checkPendingDataSave sy n x)) = eepromWrites (out x) @ [eepromData x] \<and>
      haveToSaveData (checkPendingDataSave sy n x) = 0) \<and>
   (\<not> (haveToSaveData x \<noteq> 0 \<and> n - haveToSaveData x > EEPROM_SAVE_TIMEOUT) \<longrightarrow>
      checkPendingDataSave sy n x = x) \<and>
   (haveToSaveData s = 0 \<and> editsClose sy edits s None \<and>
    lastEdit sy edits s None = Some t \<and> t \<noteq> 0 \<and>
    faultFree sy quiet (run sy edits s) \<and>
    (\<forall>i\<in>set quiet. getPin i PB7 \<noteq> LOW \<and> getPin i PB6 \<noteq> LOW) \<and>
    (\<exists>i\<in>set quiet. millis i - t > EEPROM_SAVE_TIMEOUT) \<longrightarrow>
      eepromWrites (out (run sy (edits @ quiet) s)) =
        eepromWrites (out s) @ [eepromData (run sy edits s)] \<and>
      haveToSaveData (run sy (edits @ quiet) s) = 0 \<and>
      eepromData (run sy (edits @ quiet) s) = eepromData (run sy edits s))"
proof (intro conjI impI)
  assume "haveToSaveData x \<noteq> 0 \<and> n - haveToSaveData x > EEPROM_SAVE_TIMEOUT"
  then show "eepromWrites (out (checkPendingDataSave sy n x)) =
      eepromWrites (out x) @ [eepromData x]"
    and "haveToSaveData (checkPendingDataSave sy n x) = 0"
    by (simp_all add: checkPendingDataSave_pending)
next
  assume "\<not> (haveToSaveData x \<noteq> 0 \<and> n - haveToSaveData x > EEPROM_SAVE_TIMEOUT)"
  then show "checkPendingDataSave sy n x = x"
    by (auto simp add: checkPendingDataSave_def)
next
  assume a: "haveToSaveData s = 0 \<and> editsClose sy edits s None \<and>
    lastEdit sy edits s None = Some t \<and> t \<noteq> 0 \<and>
    faultFree sy quiet (run sy edits s) \<and>
    (\<forall>i\<in>set quiet. getPin i PB7 \<noteq> LOW \<and> getPin i PB6 \<noteq> LOW) \<and>
    (\<exists>i\<in>set quiet. millis i - t > EEPROM_SAVE_TIMEOUT)"
  then have fq: "faultFree sy quiet (run sy edits s)"
    and rel: "\<forall>i\<in>set quiet. getPin i PB7 \<noteq> LOW \<and> getPin i PB6 \<noteq> LOW"
    and cl: "editsClose sy edits s None"
    and z: "haveToSaveData s = (case None of None \<Rightarrow> 0 | Some t \<Rightarrow> t)"
    and le: "lastEdit sy edits s None \<noteq> None"
    by simp_all
  have r0: "(None :: u32 option) \<noteq> None \<longrightarrow>
      50 \<le> heatPoint (eepromData s) \<and> heatPoint (eepromData s) \<le> 450"
    by simp
  from edited_range [OF r0 le]
  have rng: "50 \<le> heatPoint (eepromData (run sy edits s))"
    "heatPoint (eepromData (run sy edits s)) \<le> 450"
    by simp_all
  from pending_tracks [OF cl z] a
  have p: "haveToSaveData (run sy edits s) = t"
    "eepromWrites (out (run sy edits s)) = eepromWrites (out s)"
    by simp_all
  note q = quiet_flush [OF fq rel rng]
  from q a p show "eepromWrites (out (run sy (edits @ quiet) s)) =
        eepromWrites (out s) @ [eepromData (run sy edits s)]"
    and "haveToSaveData (run sy (edits @ quiet) s) = 0"
    and "eepromData (run sy (edits @ quiet) s) = eepromData (run sy edits s)"
    by (simp_all add: run_append)
qed

theorem save_coalescing_witness:
  "lastEdit example_symbols
      ((held_plus 1000 # map held_plus [1001..<1701] @ [held_plus 1701]) @
       (held_plus 1702 # map held_plus [1703..<2403] @ [held_plus 2403]))
      (setup_main 0 factory_record) None = Some 2403 \<and>
   eepromWrites (out (run example_symbols
      (((held_plus 1000 # map held_plus [1001..<1701] @ [held_plus 1701]) @
        (held_plus 1702 # map held_plus [1703..<2403] @ [held_plus 2403])) @
       map released_at [2404..<4405]) (setup_main 0 factory_record))) =
     [factory_record\<lparr>heatPoint := 272\<rparr>] \<and>
   haveToSaveData (run example_symbols
      (((held_plus 1000 # map held_plus [1001..<1701] @ [held_plus 1701]) @
        (held_plus 1702 # map held_plus [1703..<2403] @ [held_plus 2403])) @
       map released_at [2404..<4405]) (setup_main 0 factory_record)) = 0 \<and>
   eepromWrites (out (checkPendingDataSave example_symbols 3702
      (pressed_since_1000\<lparr>haveToSaveData := 1701\<rparr>))) = [factory_record] \<and>
   haveToSaveData (checkPendingDataSave example_symbols 3702
      (pressed_since_1000\<lparr>haveToSaveData := 1701\<rparr>)) = 0 \<and>
   checkPendingDataSave example_symbols 3701 (pressed_since_1000\<lparr>haveToSaveData := 1701\<rparr>) =
     pressed_since_1000\<lparr>haveToSaveData := 1701\<rparr>"
proof -
  let ?sy = example_symbols
  let ?s0 = "setup_main 0 factory_record"
  let ?c1 = "held_plus 1000 # map held_plus [1001..<1701] @ [held_plus 1701]"
  let ?c2 = "held_plus 1702 # map held_plus [1703..<2403] @ [held_plus 2403]"
  let ?q = "map released_at [2404..<4405]"
  let ?s1 = "run ?sy ?c1 ?s0"
  let ?s2 = "run ?sy ?c2 ?s1"
  let ?p = "pressed_since_1000\<lparr>haveToSaveData := 1701\<rparr>"
  have "faultFree ?sy ((?c1 @ ?c2) @ ?q) ?s0"
    by (rule faultFree_steady) (auto simp add: setup_main_factory simp del: upt_rec_numeral)
  then have ff1: "faultFree ?sy ?c1 ?s0" and ff2: "faultFree ?sy ?c2 ?s1"
    and ffq: "faultFree ?sy ?q (run ?sy (?c1 @ ?c2) ?s0)"
    by (simp_all only: faultFree_append run_append)
  note pins = press_twice_pins
  \<comment> \<open>first cycle: armed at 1000, fires at 1701\<close>
  have l1: "(1000 :: u32) = (if longPressTimer ?s0 = 0 then millis (held_plus 1000)
      else longPressTimer ?s0)"
    by (simp add: setup_main_factory)
  have w1: "\<forall>i\<in>set (map held_plus [1001..<1701]).
      millis i - 1000 \<le> LONG_PRESS \<and> millis i - millis (held_plus 1000) \<le> SHORT_PRESS"
    using held_window [of 1000 1001 1701 1800] held_window [of 1000 1001 1701 700]
    by (auto simp del: upt_rec_numeral simp add: LONG_PRESS_def SHORT_PRESS_def)
  have f1: "millis (held_plus 1701) - 1000 \<le> LONG_PRESS"
    "millis (held_plus 1701) - millis (held_plus 1000) > SHORT_PRESS"
    by (simp_all add: LONG_PRESS_def SHORT_PRESS_def)
  have i1: "buttonTimer ?s0 = 0" "millis (held_plus 1000) \<noteq> 0"
    "millis (held_plus 1000) - 1000 \<le> LONG_PRESS"
    "50 \<le> heatPoint (eepromData ?s0)" "heatPoint (eepromData ?s0) \<le> 450"
    "PB7 = PB7 \<or> PB7 = PB6"
    by (simp_all add: setup_main_factory)
  from press_cycle [OF ff1 pins i1(1) l1 i1(2,3) w1 f1 i1(4,5,6)]
  have c1: "buttonTimer ?s1 = 0" "longPressTimer ?s1 = 1000"
    "eepromData ?s1 = factory_record\<lparr>heatPoint := 271\<rparr>"
    by (simp_all add: setup_main_factory stepHeat_def del: upt_rec_numeral run.simps)
  from press_cycle_edits [OF ff1 pins i1(1) l1 i1(2,3) w1 f1 i1(4,5,6), of None]
  have e1: "lastEdit ?sy ?c1 ?s0 None = Some 1701" "editsClose ?sy ?c1 ?s0 None"
    by (simp_all del: upt_rec_numeral lastEdit.simps editsClose.simps)
  \<comment> \<open>second cycle: re-armed at 1702, fires at 2403\<close>
  have l2: "(1000 :: u32) = (if longPressTimer ?s1 = 0 then millis (held_plus 1702)
      else longPressTimer ?s1)"
    by (simp only: c1) simp
  have w2: "\<forall>i\<in>set (map held_plus [1703..<2403]).
      millis i - 1000 \<le> LONG_PRESS \<and> millis i - millis (held_plus 1702) \<le> SHORT_PRESS"
    using held_window [of 1000 1703 2403 1800] held_window [of 1702 1703 2403 700]
    by (auto simp del: upt_rec_numeral simp add: LONG_PRESS_def SHORT_PRESS_def)
  have f2: "millis (held_plus 2403) - 1000 \<le> LONG_PRESS"
    "millis (held_plus 2403) - millis (held_plus 1702) > SHORT_PRESS"
    by (simp_all add: LONG_PRESS_def SHORT_PRESS_def)
  have i2: "millis (held_plus 1702) \<noteq> 0" "millis (held_plus 1702) - 1000 \<le> LONG_PRESS"
    by (simp_all add: LONG_PRESS_def)
  have r1: "50 \<le> heatPoint (eepromData ?s1)" "heatPoint (eepromData ?s1) \<le> 450"
    by (simp_all only: c1) simp_all
  from press_cycle [OF ff2 pins c1(1) l2 i2 w2 f2 r1 i1(6)]
  have c2: "eepromData ?s2 = factory_record\<lparr>heatPoint := 272\<rparr>"
    by (simp_all add: c1 stepHeat_def del: upt_rec_numeral run.simps)
  have cl2: "\<forall>i\<in>set ?c2. case Some (1701 :: u32) of None \<Rightarrow> True
      | Some t \<Rightarrow> millis i - t \<le> EEPROM_SAVE_TIMEOUT"
    using held_window [of 1701 1703 2403 2000]
    by (auto simp del: upt_rec_numeral simp add: EEPROM_SAVE_TIMEOUT_def)
  from press_cycle_edits [OF ff2 pins c1(1) l2 i2 w2 f2 r1 i1(6), of "Some 1701"] cl2
  have e2: "lastEdit ?sy ?c2 ?s1 (Some 1701) = Some 2403"
    "editsClose ?sy ?c2 ?s1 (Some 1701)"
    by (simp_all del: upt_rec_numeral lastEdit.simps editsClose.simps)
  have le: "lastEdit ?sy (?c1 @ ?c2) ?s0 None = Some 2403"
    unfolding lastEdit_append [of ?sy ?c1] e1 by (fact e2)
  have ec: "editsClose ?sy (?c1 @ ?c2) ?s0 None"
    by (simp only: editsClose_append [of ?sy ?c1] e1 e2 simp_thms)
  have rs: "eepromData (run ?sy (?c1 @ ?c2) ?s0) = factory_record\<lparr>heatPoint := 272\<rparr>"
    unfolding run_append [of ?sy ?c1] by (fact c2)
  \<comment> \<open>the quiet period\<close>
  have z: "haveToSaveData ?s0 = 0" "(2403 :: u32) \<noteq> 0" "eepromWrites (out ?s0) = []"
    by (simp_all add: setup_main_factory)
  have m: "released_at 4404 \<in> set ?q"
    unfolding set_map by (rule imageI) (simp del: upt_rec_numeral)
  have "millis (released_at 4404) - 2403 > EEPROM_SAVE_TIMEOUT"
    by (simp add: EEPROM_SAVE_TIMEOUT_def)
  with m have due: "\<exists>i\<in>set ?q. millis i - 2403 > EEPROM_SAVE_TIMEOUT"
    by (rule rev_bexI)
  have c: "haveToSaveData ?p \<noteq> 0 \<and> 3702 - haveToSaveData ?p > EEPROM_SAVE_TIMEOUT"
    "\<not> (haveToSaveData ?p \<noteq> 0 \<and> 3701 - haveToSaveData ?p > EEPROM_SAVE_TIMEOUT)"
    by (simp_all add: EEPROM_SAVE_TIMEOUT_def)
  have o: "eepromWrites (out ?p) = []" "eepromData ?p = factory_record"
    by (simp_all add: pressed_since_1000_def setup_main_factory)
  note th = save_coalescing [where sy = ?sy and s = ?s0
      and edits = "?c1 @ ?c2" and quiet = ?q and t = 2403 and x = ?p]
  from th [of 3702] c(1) have 1: "eepromWrites (out (checkPendingDataSave ?sy 3702 ?p)) =
      eepromWrites (out ?p) @ [eepromData ?p] \<and>
      haveToSaveData (checkPendingDataSave ?sy 3702 ?p) = 0"
    by blast
  from th [of 3701] c(2) have 2: "checkPendingDataSave ?sy 3701 ?p = ?p"
    by blast
  from th [of 3702] z(1,2) ec le ffq released_pins [of "[2404..<4405]"] due
  have 3: "eepromWrites (out (run ?sy ((?c1 @ ?c2) @ ?q) ?s0)) =
      eepromWrites (out ?s0) @ [eepromData (run ?sy (?c1 @ ?c2) ?s0)] \<and>
      haveToSaveData (run ?sy ((?c1 @ ?c2) @ ?q) ?s0) = 0"
    by blast
  from 1 2 3 le show ?thesis
    unfolding rs z(3) o by (simp del: upt_rec_numeral run.simps lastEdit.simps)
qed

text \<open>
  C8 as stated fails at exactly 2000 ms of inactivity, since the comparison is strict.  The
  "increase" button is held from 1000 ms, so that one edit is applied at 1701 ms, and both
  buttons are released at every millisecond from 1702 ms to 3701 ms: the setpoint is 271,
  nothing has been written and the save is still pending.
\<close>

theorem save_at_2000_counterexample:
  "heatPoint (eepromData (run example_symbols
      ((held_plus 1000 # map held_plus [1001..<1701] @ [held_plus 1701]) @
       map released_at [1702..<3702]) (setup_main 0 factory_record))) = 271 \<and>
   eepromWrites (out (run example_symbols
      ((held_plus 1000 # map held_plus [1001..<1701] @ [held_plus 1701]) @
       map released_at [1702..<3702]) (setup_main 0 factory_record))) = [] \<and>
   haveToSaveData (run example_symbols
      ((held_plus 1000 # map held_plus [1001..<1701] @ [held_plus 1701]) @
       map released_at [1702..<3702]) (setup_main 0 factory_record)) = 1701"
proof -
  let ?sy = example_symbols
  let ?s0 = "setup_main 0 factory_record"
  let ?c1 = "held_plus 1000 # map held_plus [1001..<1701] @ [held_plus 1701]"
  let ?q = "map released_at [1702..<3702]"
  let ?s1 = "run ?sy ?c1 ?s0"
  have "faultFree ?sy (?c1 @ ?q) ?s0"
    by (rule faultFree_steady) (auto simp add: setup_main_factory simp del: upt_rec_numeral)
  then have ff1: "faultFree ?sy ?c1 ?s0" and ffq: "faultFree ?sy ?q ?s1"
    by (simp_all only: faultFree_append run_append)
  have l1: "(1000 :: u32) = (if longPressTimer ?s0 = 0 then millis (held_plus 1000)
      else longPressTimer ?s0)"
    by (simp add: setup_main_factory)
  have w1: "\<forall>i\<in>set (map held_plus [1001..<1701]).
      millis i - 1000 \<le> LONG_PRESS \<and> millis i - millis (held_plus 1000) \<le> SHORT_PRESS"
    using held_window [of 1000 1001 1701 1800] held_window [of 1000 1001 1701 700]
    by (auto simp del: upt_rec_numeral simp add: LONG_PRESS_def SHORT_PRESS_def)
  have f1: "millis (held_plus 1701) - 1000 \<le> LONG_PRESS"
    "millis (held_plus 1701) - millis (held_plus 1000) > SHORT_PRESS"
    by (simp_all add: LONG_PRESS_def SHORT_PRESS_def)
  have i1: "buttonTimer ?s0 = 0" "millis (held_plus 1000) \<noteq> 0"
    "millis (held_plus 1000) - 1000 \<le> LONG_PRESS"
    "50 \<le> heatPoint (eepromData ?s0)" "heatPoint (eepromData ?s0) \<le> 450"
    "PB7 = PB7 \<or> PB7 = PB6"
    by (simp_all add: setup_main_factory)
  from press_cycle [OF ff1 press_twice_pins i1(1) l1 i1(2,3) w1 f1 i1(4,5,6)]
  have c1: "eepromData ?s1 = factory_record\<lparr>heatPoint := 271\<rparr>"
    "haveToSaveData ?s1 = 1701"
    by (simp_all add: setup_main_factory stepHeat_def del: upt_rec_numeral run.simps)
  from press_cycle_edits [OF ff1 press_twice_pins i1(1) l1 i1(2,3) w1 f1 i1(4,5,6), of None]
  have e1: "editsClose ?sy ?c1 ?s0 None"
    by (simp_all del: upt_rec_numeral lastEdit.simps editsClose.simps)
  have z: "haveToSaveData ?s0 = (case None of None \<Rightarrow> 0 | Some t \<Rightarrow> t)"
    by (simp add: setup_main_factory)
  from pending_tracks [OF e1 z]
  have w: "eepromWrites (out ?s1) = []"
    by (simp add: setup_main_factory del: upt_rec_numeral run.simps)
  have r1: "50 \<le> heatPoint (eepromData ?s1)" "heatPoint (eepromData ?s1) \<le> 450"
    by (simp_all only: c1) simp_all
  have nd: "\<not> (\<exists>i\<in>set ?q. millis i - haveToSaveData ?s1 > EEPROM_SAVE_TIMEOUT)"
    unfolding c1
    using released_window [of 1701 1702 3702 2000]
    by (auto simp del: upt_rec_numeral simp add: EEPROM_SAVE_TIMEOUT_def not_less)
  from quiet_flush [OF ffq released_pins r1] nd
  have q: "eepromData (run ?sy ?q ?s1) = eepromData ?s1"
    "haveToSaveData (run ?sy ?q ?s1) = haveToSaveData ?s1"
    "eepromWrites (out (run ?sy ?q ?s1)) = eepromWrites (out ?s1)"
    by (simp_all del: upt_rec_numeral run.simps)
  show ?thesis
    unfolding run_append [of ?sy ?c1] q c1 w by simp
qed

text \<open>
  C10. If an edit is applied in an iteration whose clock reading is 0, the pending-save
  timestamp is 0 afterwards and that iteration writes nothing; and as long as no later
  iteration applies an edit at a clock reading other than 0, nothing is ever written and
  the timestamp stays 0.
\<close>

theorem edit_at_clock_zero:
  assumes "millis i = 0" "editApplied i s"
  shows "haveToSaveData (mainLoop sy i s) = 0 \<and>
         eepromWrites (out (mainLoop sy i s)) = eepromWrites (out s) \<and>
         (\<forall>ins. noArmingEdit sy ins (mainLoop sy i s) \<longrightarrow>
            eepromWrites (out (run sy ins (mainLoop sy i s))) = eepromWrites (out s) \<and>
            haveToSaveData (run sy ins (mainLoop sy i s)) = 0)"
proof -
  from assms(2) have nf: "faultCode (filteredTemp i s) = 0" by (simp add: editApplied_def)
  have 1: "haveToSaveData (mainLoop sy i s) = 0"
    "eepromWrites (out (mainLoop sy i s)) = eepromWrites (out s)"
    using assms unfolding mainLoop_pending [OF nf] by simp_all
  from 1 noArmingEdit_no_write [OF 1(1)] show ?thesis by simp
qed

theorem edit_at_clock_zero_witness:
  "millis (held_plus 0) = 0 \<and> editApplied (held_plus 0) pressed_before_wrap \<and>
   haveToSaveData (mainLoop example_symbols (held_plus 0) pressed_before_wrap) = 0 \<and>
   eepromWrites (out (mainLoop example_symbols (held_plus 0) pressed_before_wrap)) = [] \<and>
   eepromWrites (out (run example_symbols (map released_at [1..<5000])
      (mainLoop example_symbols (held_plus 0) pressed_before_wrap))) = [] \<and>
   haveToSaveData (run example_symbols (map released_at [1..<5000])
      (mainLoop example_symbols (held_plus 0) pressed_before_wrap)) = 0"
proof -
  have h1: "millis (held_plus 0) = 0" by simp
  have h2: "editApplied (held_plus 0) pressed_before_wrap"
    by (simp add: editApplied_def pressed_before_wrap_def setup_main_factory faultCode_def
        filteredTemp_def pressFires_def LOW_def LONG_PRESS_def SHORT_PRESS_def Let_def)
  have o: "eepromWrites (out pressed_before_wrap) = []"
    by (simp add: pressed_before_wrap_def setup_main_factory)
  from edit_at_clock_zero [OF h1 h2, of example_symbols]
    noArmingEdit_released [of example_symbols "[1..<5000]"
      "mainLoop example_symbols (held_plus 0) pressed_before_wrap"]
  show ?thesis using h1 h2 o by (simp del: upt_rec_numeral run.simps)
qed

end
